(* ===== verification/Prelude.thy ===== *)
theory Prelude
  imports Main
begin

text \<open>
  Shared vocabulary of the development: the Python exceptions the application can
  raise (\<open>py_exc\<close>), the JSON values its endpoints return (\<open>json\<close>), the error
  monad \<open>py_exc + 'a\<close> in which every raise of the source is an \<open>Inl\<close>, with its
  bind \<open>rbind\<close>, and the list lemmas on \<open>count_list\<close>, \<open>replicate\<close> and
  list update that the proofs on interleaved start-ups and on the router share.  The
  collection \<open>py_simps\<close> gathers the evaluation equations of the Python runtime
  fragment.
\<close>

named_theorems py_simps "evaluation equations of the Python runtime fragment"

type_synonym email = string

text \<open>Python's \<^verbatim>\<open>repr\<close> of a string: the string between single quotes.\<close>

definition py_quote :: "string \<Rightarrow> string" where
  "py_quote s = [CHR 0x27] @ s @ [CHR 0x27]"

subsection \<open>Exceptions\<close>

text \<open>
  The exception classes raised on the paths of \<^verbatim>\<open>src/src/app.py\<close>: the
  builtin ones of the Python runtime (with their message), SQLAlchemy's
  \<^verbatim>\<open>IntegrityError\<close> raised at flush time, and FastAPI's
  \<^verbatim>\<open>HTTPException(status_code, detail)\<close>.
\<close>

datatype py_exc =
    TypeError string
  | KeyError string
  | IndexError
  | ValueError string
  | AttributeError string
  | NameError string
  | IntegrityError string
  | HTTPException nat string

type_synonym 'a py_result = "py_exc + 'a"

definition rbind :: "'e + 'a \<Rightarrow> ('a \<Rightarrow> 'e + 'b) \<Rightarrow> 'e + 'b" where
  "rbind m f = (case m of Inl e \<Rightarrow> Inl e | Inr a \<Rightarrow> f a)"

subsection \<open>JSON values\<close>

text \<open>
  What FastAPI serialises a handler's return value to: Python \<^verbatim>\<open>None\<close> is
  \<open>JNull\<close>, a dict is \<open>JObj\<close> with its keys in insertion order, a list is \<open>JArr\<close>.
\<close>

datatype json =
    JNull
  | JBool bool
  | JInt int
  | JStr string
  | JArr "json list"
  | JObj "(string \<times> json) list"

primrec opt_json :: "('a \<Rightarrow> json) \<Rightarrow> 'a option \<Rightarrow> json" where
  "opt_json f None = JNull"
| "opt_json f (Some x) = f x"

subsection \<open>The error monad\<close>

lemma rbind_Inl [simp]: "rbind (Inl e) f = Inl e"
  by (simp add: rbind_def)

lemma rbind_Inr [simp]: "rbind (Inr a) f = f a"
  by (simp add: rbind_def)

lemma rbind_eq_Inr: "rbind m f = Inr b \<longleftrightarrow> (\<exists>a. m = Inr a \<and> f a = Inr b)"
  by (cases m) simp_all

lemma rbind_eq_Inl: "rbind m f = Inl e \<longleftrightarrow> (m = Inl e \<or> (\<exists>a. m = Inr a \<and> f a = Inl e))"
  by (cases m) simp_all

subsection \<open>Lists\<close>

lemma list_all_list_update: "list_all P xs \<Longrightarrow> P x \<Longrightarrow> list_all P (xs[i := x])"
  by (auto simp: list_all_iff dest: set_update_subset_insert [THEN subsetD])

lemma count_list_update:
  "i < length xs \<Longrightarrow>
   count_list (xs[i := y]) x + (if xs ! i = x then 1 else 0) = count_list xs x + (if y = x then 1 else 0)"
proof (induction xs arbitrary: i)
  case Nil
  then show ?case by simp
next
  case (Cons z zs)
  show ?case
  proof (cases i)
    case 0
    then show ?thesis by simp
  next
    case (Suc j)
    with Cons.IH [of j] Cons.prems show ?thesis by auto
  qed
qed

lemma count_list_replicate_same: "count_list (replicate k x) x = k"
  by (induction k) simp_all

lemma replicate_split_update:
  assumes "i < k"
  shows "(replicate i a @ replicate (k - i) b) ! i = b \<and>
    (replicate i a @ replicate (k - i) b)[i := a] = replicate (Suc i) a @ replicate (k - Suc i) b"
proof -
  obtain m where m: "k - i = Suc m" using assms by (cases "k - i") auto
  then have "k - Suc i = m" by simp
  with m show ?thesis by (simp add: nth_append list_update_append replicate_app_Cons_same)
qed

lemma count_list_replicate_other: "c \<noteq> x \<Longrightarrow> count_list (replicate k c) x = 0"
  by (induction k) simp_all

lemma dropWhile_replicate: "dropWhile (\<lambda>c. c = a) (replicate k a @ ys) = dropWhile (\<lambda>c. c = a) ys"
  by (induction k) simp_all

end
