(* ===== verification/ActivityModel.thy ===== *)
theory ActivityModel
  imports Prelude
begin

text \<open>
  The ORM entity of \<^verbatim>\<open>src/src/models/activity.py\<close>: the class
  \<^verbatim>\<open>Activity\<close> mapped to the table \<^verbatim>\<open>activities\<close>.  An instance is the
  record \<open>activity\<close>, one field per mapped column; every attribute is an
  \<open>option\<close> because an instance built in Python holds \<^verbatim>\<open>None\<close> in each
  attribute it was not given until the session flushes it.  \<open>activity_new\<close> is
  the keyword constructor \<^verbatim>\<open>Activity(**kwargs)\<close> that SQLAlchemy's declarative
  base gives the class, on the keyword arguments the application passes, and
  \<open>to_dict\<close> the method of the same name.  Proved here: \<open>to_dict\<close> builds an
  object with exactly the keys \<^verbatim>\<open>id, name, description, time, category\<close> (no
  participants, no timestamps), and decoding it gives back those five attributes.
\<close>

type_synonym timestamp = nat

text \<open>
  Column types: \<^verbatim>\<open>Integer\<close> is a Python \<^verbatim>\<open>int\<close>, \<^verbatim>\<open>String(n)\<close> and
  \<^verbatim>\<open>Text\<close> a \<^verbatim>\<open>str\<close> (the length bound of \<^verbatim>\<open>String(n)\<close> is not enforced
  by SQLite and is not modelled), \<^verbatim>\<open>DateTime\<close> a timestamp.  The field for the
  column \<^verbatim>\<open>id\<close> is called \<open>activity_id\<close>, since \<open>id\<close> is the identity
  function of HOL.
\<close>

record activity =
  activity_id :: "int option"
  name :: "string option"
  description :: "string option"
  time :: "string option"
  category :: "string option"
  created_at :: "timestamp option"
  updated_at :: "timestamp option"

definition blank_activity :: activity where
  "blank_activity =
     \<lparr>activity_id = None, name = None, description = None, time = None,
      category = None, created_at = None, updated_at = None\<rparr>"

text \<open>
  The declarative constructor \<^verbatim>\<open>Activity(**kwargs)\<close> runs
  \<^verbatim>\<open>for k in kwargs: setattr(self, k, kwargs[k])\<close>, after checking that the class
  has an attribute \<^verbatim>\<open>k\<close>.  The application calls it only at line 90, on the
  seed dictionaries, whose keys are four of the string columns and whose values are
  strings.  The model takes keyword arguments of exactly that kind: a keyword is
  one of the four string columns (\<open>str_column\<close>, printed by \<open>column_key\<close>),
  so every call succeeds and sets the columns in the order of the dictionary.  The
  keywords the application never passes (the other columns, other attributes of the
  class, names the class lacks, for which the constructor raises
  \<^verbatim>\<open>TypeError\<close>) are outside the model.
\<close>

datatype str_column = NameCol | DescriptionCol | TimeCol | CategoryCol

primrec column_key :: "str_column \<Rightarrow> string" where
  "column_key NameCol = ''name''"
| "column_key DescriptionCol = ''description''"
| "column_key TimeCol = ''time''"
| "column_key CategoryCol = ''category''"

primrec set_column :: "activity \<Rightarrow> str_column \<Rightarrow> string \<Rightarrow> activity" where
  "set_column a NameCol v = a\<lparr>name := Some v\<rparr>"
| "set_column a DescriptionCol v = a\<lparr>description := Some v\<rparr>"
| "set_column a TimeCol v = a\<lparr>time := Some v\<rparr>"
| "set_column a CategoryCol v = a\<lparr>category := Some v\<rparr>"

fun set_kwargs :: "activity \<Rightarrow> (str_column \<times> string) list \<Rightarrow> activity" where
  "set_kwargs a [] = a"
| "set_kwargs a ((k, v) # kvs) = set_kwargs (set_column a k v) kvs"

definition activity_new :: "(str_column \<times> string) list \<Rightarrow> activity" where
  "activity_new kwargs = set_kwargs blank_activity kwargs"

text \<open>\<^verbatim>\<open>to_dict\<close>: a Python dict with five keys in this order, \<^verbatim>\<open>None\<close> as JSON null.\<close>

definition to_dict :: "activity \<Rightarrow> json" where
  "to_dict a =
     JObj [(''id'', opt_json JInt (activity_id a)),
           (''name'', opt_json JStr (name a)),
           (''description'', opt_json JStr (description a)),
           (''time'', opt_json JStr (time a)),
           (''category'', opt_json JStr (category a))]"

text \<open>The NOT NULL constraints of the table: \<^verbatim>\<open>id\<close> (primary key), \<^verbatim>\<open>name\<close>, \<^verbatim>\<open>time\<close>.\<close>

definition not_null_ok :: "activity \<Rightarrow> bool" where
  "not_null_ok a \<longleftrightarrow> name a \<noteq> None \<and> time a \<noteq> None"

text \<open>
  Reading the five fields back from the JSON object \<open>to_dict\<close> builds, as a client
  of \<^verbatim>\<open>GET /activities\<close> does.
\<close>

definition json_opt_str :: "json \<Rightarrow> string option option" where
  "json_opt_str j = (case j of JNull \<Rightarrow> Some None | JStr s \<Rightarrow> Some (Some s) | _ \<Rightarrow> None)"

definition json_opt_int :: "json \<Rightarrow> int option option" where
  "json_opt_int j = (case j of JNull \<Rightarrow> Some None | JInt i \<Rightarrow> Some (Some i) | _ \<Rightarrow> None)"

definition activity_of_dict :: "json \<Rightarrow> activity option" where
  "activity_of_dict j = (case j of
     JObj kvs \<Rightarrow>
       Option.bind (Option.bind (map_of kvs ''id'') json_opt_int) (\<lambda>i.
       Option.bind (Option.bind (map_of kvs ''name'') json_opt_str) (\<lambda>n.
       Option.bind (Option.bind (map_of kvs ''description'') json_opt_str) (\<lambda>d.
       Option.bind (Option.bind (map_of kvs ''time'') json_opt_str) (\<lambda>t.
       Option.bind (Option.bind (map_of kvs ''category'') json_opt_str) (\<lambda>c.
       Some \<lparr>activity_id = i, name = n, description = d, time = t, category = c,
             created_at = None, updated_at = None\<rparr>)))))
   | _ \<Rightarrow> None)"

subsection \<open>Properties\<close>

lemma json_opt_str_opt_json [simp]: "json_opt_str (opt_json JStr x) = Some x"
  by (cases x) (simp_all add: json_opt_str_def)

lemma json_opt_int_opt_json [simp]: "json_opt_int (opt_json JInt x) = Some x"
  by (cases x) (simp_all add: json_opt_int_def)

text \<open>
  C20. \<^verbatim>\<open>to_dict\<close> builds a JSON object with exactly the keys
  \<^verbatim>\<open>id, name, description, time, category\<close>, in this order (so neither
  participants nor the two timestamps), and it loses nothing else: decoding the
  object gives back the activity's id, name, description, time and category.
\<close>

theorem to_dict_roundtrip:
  "(\<exists>kvs. to_dict a = JObj kvs \<and> map fst kvs = [''id'', ''name'', ''description'', ''time'', ''category'']) \<and>
   activity_of_dict (to_dict a) = Some (a\<lparr>created_at := None, updated_at := None\<rparr>)"
  by (simp add: activity_of_dict_def to_dict_def)

end
