(* ===== verification/PyValue.thy ===== *)
theory PyValue
  imports ActivityModel "HOL-Library.Sublist"
begin

text \<open>
  The fragment of the Python runtime that the handlers of \<^verbatim>\<open>src/src/app.py\<close>
  are written in: values, a heap of mutable objects, and the operations the handler
  bodies use, namely truth testing (\<^verbatim>\<open>if not x\<close>), subscription
  (\<^verbatim>\<open>x[k]\<close>), membership (\<^verbatim>\<open>k in x\<close>), \<^verbatim>\<open>list.append\<close>,
  \<^verbatim>\<open>list.remove\<close> and the lookup of a global name.  Each raises what CPython
  raises: \<^verbatim>\<open>TypeError\<close> for a value that does not support the operation (an
  \<^verbatim>\<open>Activity\<close> instance is not subscriptable and not iterable),
  \<^verbatim>\<open>KeyError\<close>, \<^verbatim>\<open>IndexError\<close>, \<^verbatim>\<open>ValueError\<close>, \<^verbatim>\<open>AttributeError\<close>
  and \<^verbatim>\<open>NameError\<close>.

  Dicts and lists are objects with identity: a value \<open>PRef r\<close> points at the heap
  cell \<open>r\<close>, so that mutating a list reached through one name is seen through every
  other (the aliasing the handlers rely on when they append to
  \<^verbatim>\<open>activity["participants"]\<close>).  The heap is total: every address holds an
  object, so there is no dangling reference to model.  A dict is an association
  list in insertion order, as CPython's dicts are.  \<open>PObj a\<close> is an instance of
  the ORM class \<^verbatim>\<open>Activity\<close>; \<open>POpaque n\<close> is the object (a module, class or
  function) bound to the module-level name \<open>n\<close>, whose contents the model does
  not look into.
\<close>

datatype pyval =
    PStr string
  | PInt int
  | PNone
  | PRef nat
  | PObj activity
  | POpaque string

datatype pyobj = ODict "(pyval \<times> pyval) list" | OList "pyval list"

type_synonym heap = "nat \<Rightarrow> pyobj"
type_synonym globals = "string \<rightharpoonup> pyval"

primrec is_ref :: "pyval \<Rightarrow> bool" where
  "is_ref (PStr s) = False"
| "is_ref (PInt i) = False"
| "is_ref PNone = False"
| "is_ref (PRef r) = True"
| "is_ref (PObj a) = False"
| "is_ref (POpaque n) = False"

text \<open>\<^verbatim>\<open>type(x).__name__\<close>, used in the messages of the exceptions.\<close>

definition type_name :: "heap \<Rightarrow> pyval \<Rightarrow> string" where
  "type_name h v = (case v of
       PStr _ \<Rightarrow> ''str'' | PInt _ \<Rightarrow> ''int'' | PNone \<Rightarrow> ''NoneType''
     | PObj _ \<Rightarrow> ''Activity'' | POpaque _ \<Rightarrow> ''object''
     | PRef r \<Rightarrow> (case h r of ODict _ \<Rightarrow> ''dict'' | OList _ \<Rightarrow> ''list''))"

text \<open>\<^verbatim>\<open>bool(x)\<close>: empty strings, containers, zero and \<^verbatim>\<open>None\<close> are false; an
  instance of a class without \<^verbatim>\<open>__bool__\<close> or \<^verbatim>\<open>__len__\<close> is true.\<close>

definition py_truthy :: "heap \<Rightarrow> pyval \<Rightarrow> bool" where
  "py_truthy h v = (case v of
       PStr s \<Rightarrow> s \<noteq> [] | PInt i \<Rightarrow> i \<noteq> 0 | PNone \<Rightarrow> False | PObj _ \<Rightarrow> True | POpaque _ \<Rightarrow> True
     | PRef r \<Rightarrow> (case h r of ODict d \<Rightarrow> d \<noteq> [] | OList l \<Rightarrow> l \<noteq> []))"

text \<open>Sequence indexing with Python's negative indices.\<close>

definition py_index :: "'a list \<Rightarrow> int \<Rightarrow> 'a py_result" where
  "py_index xs i =
     (let n = int (length xs); j = (if i < 0 then n + i else i)
      in if 0 \<le> j \<and> j < n then Inr (xs ! nat j) else Inl IndexError)"

fun py_repr :: "pyval \<Rightarrow> string" where
  "py_repr (PStr s) = py_quote s"
| "py_repr PNone = ''None''"
| "py_repr (PInt i) = ''<int>''"
| "py_repr _ = ''<object>''"

definition unhashable :: "heap \<Rightarrow> pyval \<Rightarrow> py_exc" where
  "unhashable h k = TypeError (''unhashable type: '' @ py_quote (type_name h k))"

text \<open>\<^verbatim>\<open>c[k]\<close>.\<close>

definition py_getitem :: "heap \<Rightarrow> pyval \<Rightarrow> pyval \<Rightarrow> pyval py_result" where
  "py_getitem h c k = (case c of
       PRef r \<Rightarrow> (case h r of
           ODict d \<Rightarrow>
             (if is_ref k then Inl (unhashable h k)
              else case map_of d k of Some v \<Rightarrow> Inr v | None \<Rightarrow> Inl (KeyError (py_repr k)))
         | OList l \<Rightarrow> (case k of
             PInt i \<Rightarrow> py_index l i
           | _ \<Rightarrow> Inl (TypeError (''list indices must be integers or slices, not '' @ type_name h k))))
     | PStr s \<Rightarrow> (case k of
           PInt i \<Rightarrow> (case py_index s i of Inl e \<Rightarrow> Inl e | Inr ch \<Rightarrow> Inr (PStr [ch]))
         | _ \<Rightarrow> Inl (TypeError (''string indices must be integers, not '' @ py_quote (type_name h k))))
     | _ \<Rightarrow> Inl (TypeError (py_quote (type_name h c) @ '' object is not subscriptable'')))"

text \<open>
  \<^verbatim>\<open>x in c\<close>: the keys of a dict, the elements of a list (compared by
  \<open>=\<close>, which is Python's \<^verbatim>\<open>==\<close> on strings, ints and \<^verbatim>\<open>None\<close>, and identity
  on objects), a substring of a string.
\<close>

definition py_contains :: "heap \<Rightarrow> pyval \<Rightarrow> pyval \<Rightarrow> bool py_result" where
  "py_contains h c x = (case c of
       PRef r \<Rightarrow> (case h r of
           ODict d \<Rightarrow> (if is_ref x then Inl (unhashable h x) else Inr (x \<in> set (map fst d)))
         | OList l \<Rightarrow> Inr (x \<in> set l))
     | PStr s \<Rightarrow> (case x of
           PStr t \<Rightarrow> Inr (sublist t s)
         | _ \<Rightarrow> Inl (TypeError (py_quote ''in <string>'' @ '' requires string as left operand, not '' @ type_name h x)))
     | _ \<Rightarrow> Inl (TypeError (''argument of type '' @ py_quote (type_name h c) @ '' is not iterable'')))"

definition no_attr :: "heap \<Rightarrow> pyval \<Rightarrow> string \<Rightarrow> py_exc" where
  "no_attr h c a = AttributeError (py_quote (type_name h c) @ '' object has no attribute '' @ py_quote a)"

text \<open>\<^verbatim>\<open>c.append(x)\<close>: mutates the list in place.\<close>

definition py_append :: "heap \<Rightarrow> pyval \<Rightarrow> pyval \<Rightarrow> heap py_result" where
  "py_append h c x = (case c of
       PRef r \<Rightarrow> (case h r of
           OList l \<Rightarrow> Inr (h(r := OList (l @ [x])))
         | _ \<Rightarrow> Inl (no_attr h c ''append''))
     | _ \<Rightarrow> Inl (no_attr h c ''append''))"

text \<open>\<^verbatim>\<open>c.remove(x)\<close>: removes the first occurrence, \<^verbatim>\<open>ValueError\<close> if none.\<close>

definition py_remove :: "heap \<Rightarrow> pyval \<Rightarrow> pyval \<Rightarrow> heap py_result" where
  "py_remove h c x = (case c of
       PRef r \<Rightarrow> (case h r of
           OList l \<Rightarrow>
             (if x \<in> set l then Inr (h(r := OList (remove1 x l)))
              else Inl (ValueError ''list.remove(x): x not in list''))
         | _ \<Rightarrow> Inl (no_attr h c ''remove''))
     | _ \<Rightarrow> Inl (no_attr h c ''remove''))"

text \<open>A free name of a function body is looked up in the module's globals.\<close>

definition py_global :: "globals \<Rightarrow> string \<Rightarrow> pyval py_result" where
  "py_global g x = (case g x of Some v \<Rightarrow> Inr v | None \<Rightarrow> Inl (NameError (''name '' @ py_quote x @ '' is not defined'')))"

subsection \<open>Evaluation lemmas\<close>

lemma py_truthy_simps [simp, py_simps]:
  "py_truthy h PNone = False"
  "py_truthy h (PObj a) = True"
  "py_truthy h (PStr s) = (s \<noteq> [])"
  by (simp_all add: py_truthy_def)

lemma py_getitem_obj [py_simps]:
  "py_getitem h (PObj a) k = Inl (TypeError (py_quote ''Activity'' @ '' object is not subscriptable''))"
  by (simp add: py_getitem_def type_name_def)

lemma py_global_simps [py_simps]:
  "g x = Some v \<Longrightarrow> py_global g x = Inr v"
  "g x = None \<Longrightarrow> py_global g x = Inl (NameError (''name '' @ py_quote x @ '' is not defined''))"
  by (simp_all add: py_global_def)

end
