(* ===== verification/Database.thy ===== *)
theory Database
  imports ActivityModel
begin

text \<open>
  The persistence layer: the SQLite table \<^verbatim>\<open>activities\<close> and the SQLAlchemy
  session through which \<^verbatim>\<open>src/src/app.py\<close> reads and writes it.  The module
  \<^verbatim>\<open>models/__init__.py\<close> that defines \<^verbatim>\<open>engine\<close>, \<^verbatim>\<open>Base\<close> and
  \<^verbatim>\<open>get_db\<close> is not among the sources; \<open>get_db\<close> and \<open>close_db\<close> follow the
  usual FastAPI dependency (a fresh session per request, closed afterwards, so that
  what was not committed is discarded).  The queries are the three expressions of
  \<^verbatim>\<open>app.py\<close>: \<^verbatim>\<open>db.query(Activity).count()\<close> (line 88),
  \<^verbatim>\<open>db.query(Activity).all()\<close> (line 110) and
  \<^verbatim>\<open>db.query(Activity).filter(Activity.name == n).first()\<close> (line 118).

  The table is the list of its rows in rowid order, the order in which SQLite scans
  it without an \<^verbatim>\<open>ORDER BY\<close>.  A commit flushes the pending objects in the order
  they were added: each row gets the next rowid (one more than the largest, as SQLite
  assigns an \<^verbatim>\<open>INTEGER PRIMARY KEY\<close>), the server default \<^verbatim>\<open>func.now()\<close> for
  \<^verbatim>\<open>created_at\<close>, and the NOT NULL constraints of \<^verbatim>\<open>name\<close> and \<^verbatim>\<open>time\<close>
  are checked.  SQLAlchemy's autoflush before a query is not modelled: no query of
  the application runs with pending objects (each runs on a fresh session, or, in
  \<^verbatim>\<open>init_db\<close>, before the first \<^verbatim>\<open>add\<close>).  Proved here: a commit keeps the table
  invariant, and on objects built in Python it succeeds and appends exactly
  them, stamped by \<open>stamp_row\<close> with consecutive rowids; nothing in the schema
  rejects two activities of one name.
\<close>

record db_state =
  table :: "activity list"
  clock :: timestamp

record session =
  sess_db :: db_state
  pending :: "activity list"

definition get_db :: "db_state \<Rightarrow> session" where
  "get_db d = \<lparr>sess_db = d, pending = []\<rparr>"

definition close_db :: "session \<Rightarrow> db_state" where
  "close_db s = sess_db s"

definition query_count :: "session \<Rightarrow> nat" where
  "query_count s = length (table (sess_db s))"

definition query_all :: "session \<Rightarrow> activity list" where
  "query_all s = table (sess_db s)"

text \<open>SQL \<^verbatim>\<open>=\<close> on text is case-sensitive and never true of a NULL name.\<close>

definition query_first_by_name :: "session \<Rightarrow> string \<Rightarrow> activity option" where
  "query_first_by_name s n = find (\<lambda>a. name a = Some n) (table (sess_db s))"

definition session_add :: "session \<Rightarrow> activity \<Rightarrow> session" where
  "session_add s a = s\<lparr>pending := pending s @ [a]\<rparr>"

definition row_id :: "activity \<Rightarrow> int" where
  "row_id a = (case activity_id a of Some i \<Rightarrow> i | None \<Rightarrow> 0)"

definition next_rowid :: "activity list \<Rightarrow> int" where
  "next_rowid rs = fold (\<lambda>a m. max m (row_id a)) rs 0 + 1"

text \<open>
  The row an INSERT writes: the rowid SQLite assigns and the server default of
  \<^verbatim>\<open>created_at\<close> (\<^verbatim>\<open>func.now()\<close>, line 13 of the model) when the object has none.
\<close>

definition stamp_row :: "timestamp \<Rightarrow> int \<Rightarrow> activity \<Rightarrow> activity" where
  "stamp_row t i a = a\<lparr>activity_id := Some i, created_at := (case created_at a of None \<Rightarrow> Some t | c \<Rightarrow> c)\<rparr>"

fun flush_rows :: "timestamp \<Rightarrow> activity list \<Rightarrow> activity list \<Rightarrow> activity list py_result" where
  "flush_rows t rs [] = Inr rs"
| "flush_rows t rs (a # as) =
     (if name a = None then Inl (IntegrityError ''NOT NULL constraint failed: activities.name'')
      else if time a = None then Inl (IntegrityError ''NOT NULL constraint failed: activities.time'')
      else
        let i = (case activity_id a of Some i \<Rightarrow> i | None \<Rightarrow> next_rowid rs) in
        if Some i \<in> set (map activity_id rs)
        then Inl (IntegrityError ''UNIQUE constraint failed: activities.id'')
        else flush_rows t (rs @ [stamp_row t i a]) as)"

definition session_commit :: "session \<Rightarrow> session py_result" where
  "session_commit s =
     rbind (flush_rows (clock (sess_db s)) (table (sess_db s)) (pending s))
       (\<lambda>rs. Inr \<lparr>sess_db = (sess_db s)\<lparr>table := rs\<rparr>, pending = []\<rparr>)"

text \<open>
  The table invariant: every row has an id, the ids are distinct, and the NOT NULL
  columns are set.
\<close>

definition table_ok :: "activity list \<Rightarrow> bool" where
  "table_ok rs \<longleftrightarrow> distinct (map activity_id rs) \<and> (\<forall>a\<in>set rs. activity_id a \<noteq> None \<and> not_null_ok a)"

definition transient :: "activity \<Rightarrow> bool" where
  "transient a \<longleftrightarrow> activity_id a = None \<and> not_null_ok a"

text \<open>A transient object, used to instantiate the theorems on commit.\<close>

definition example_row :: activity where
  "example_row = blank_activity\<lparr>name := Some ''Chess Club'', time := Some ''Fridays''\<rparr>"

subsection \<open>Row ids\<close>

lemma fold_max_ge_init: "m \<le> fold (\<lambda>a m. max m (row_id a)) rs m"
  by (induction rs arbitrary: m) (auto intro: order_trans [OF max.cobounded1])

lemma fold_max_ge_mem: "a \<in> set rs \<Longrightarrow> row_id a \<le> fold (\<lambda>a m. max m (row_id a)) rs m"
proof (induction rs arbitrary: m)
  case Nil
  then show ?case by simp
next
  case (Cons b rs)
  show ?case
  proof (cases "a = b")
    case True
    have "row_id a \<le> max m (row_id b)" using True by simp
    also have "\<dots> \<le> fold (\<lambda>a m. max m (row_id a)) rs (max m (row_id b))"
      by (rule fold_max_ge_init)
    finally show ?thesis by simp
  next
    case False
    with Cons show ?thesis by simp
  qed
qed

lemma next_rowid_gt: "a \<in> set rs \<Longrightarrow> row_id a < next_rowid rs"
  unfolding next_rowid_def using fold_max_ge_mem by fastforce

lemma next_rowid_fresh: "Some (next_rowid rs) \<notin> set (map activity_id rs)"
proof
  assume "Some (next_rowid rs) \<in> set (map activity_id rs)"
  then obtain a where a: "a \<in> set rs" and "activity_id a = Some (next_rowid rs)" by auto
  then have "row_id a = next_rowid rs" by (simp add: row_id_def)
  moreover from a have "row_id a < next_rowid rs" by (rule next_rowid_gt)
  ultimately show False by simp
qed

lemma next_rowid_fresh_plus [simp]:
  assumes "0 \<le> k"
  shows "Some (next_rowid rs + k) \<notin> set (map activity_id rs)"
proof
  assume "Some (next_rowid rs + k) \<in> set (map activity_id rs)"
  then obtain a where a: "a \<in> set rs" and "activity_id a = Some (next_rowid rs + k)" by auto
  with next_rowid_gt [OF a] assms show False by (simp add: row_id_def)
qed

lemma next_rowid_Nil [simp]: "next_rowid [] = 1"
  by (simp add: next_rowid_def)

lemma next_rowid_snoc:
  "next_rowid (rs @ [a]) = max (next_rowid rs) (row_id a + 1)"
  by (simp add: next_rowid_def)

subsection \<open>Flush and commit\<close>

lemma flush_rows_prefix:
  "flush_rows t rs ps = Inr rs' \<Longrightarrow> \<exists>new. rs' = rs @ new \<and> length new = length ps"
proof (induction t rs ps rule: flush_rows.induct)
  case (1 t rs)
  then show ?case by simp
next
  case (2 t rs a as)
  then show ?case by (fastforce simp: Let_def split: if_splits)
qed

lemma flush_rows_table_ok:
  "flush_rows t rs ps = Inr rs' \<Longrightarrow> table_ok rs \<Longrightarrow> table_ok rs'"
proof (induction t rs ps rule: flush_rows.induct)
  case (1 t rs)
  then show ?case by simp
next
  case (2 t rs a as)
  then show ?case
    by (auto simp: Let_def table_ok_def not_null_ok_def stamp_row_def split: if_splits option.splits)
qed

lemma next_rowid_stamp [simp]: "next_rowid (rs @ [stamp_row t (next_rowid rs) a]) = next_rowid rs + 1"
  by (simp add: next_rowid_snoc row_id_def stamp_row_def)

lemma session_commit_Inr:
  "session_commit s = Inr s' \<longleftrightarrow>
   (\<exists>rs. flush_rows (clock (sess_db s)) (table (sess_db s)) (pending s) = Inr rs \<and>
         s' = \<lparr>sess_db = (sess_db s)\<lparr>table := rs\<rparr>, pending = []\<rparr>)"
  by (auto simp: session_commit_def rbind_eq_Inr)

lemma flush_rows_transient_eq:
  assumes "\<forall>p\<in>set ps. transient p"
  shows "flush_rows t rs ps = Inr (rs @ map2 (stamp_row t) [next_rowid rs..next_rowid rs + int (length ps) - 1] ps) \<and>
    next_rowid (rs @ map2 (stamp_row t) [next_rowid rs..next_rowid rs + int (length ps) - 1] ps) =
      next_rowid rs + int (length ps)"
  using assms
proof (induction ps arbitrary: rs)
  case Nil
  then show ?case by simp
next
  case (Cons a as)
  let ?rs' = "rs @ [stamp_row t (next_rowid rs) a]"
  from Cons.prems have a: "name a \<noteq> None" "time a \<noteq> None" "activity_id a = None"
    and as: "\<forall>p\<in>set as. transient p"
    by (simp_all add: transient_def not_null_ok_def)
  have step: "flush_rows t rs (a # as) = flush_rows t ?rs' as"
    using next_rowid_fresh [of rs] by (simp add: Let_def a)
  have n: "next_rowid ?rs' = next_rowid rs + 1" by simp
  have up: "[next_rowid rs..next_rowid rs + int (length (a # as)) - 1] =
      next_rowid rs # [next_rowid rs + 1..next_rowid rs + 1 + int (length as) - 1]"
    by (simp add: upto_rec1 algebra_simps)
  from Cons.IH [OF as, of ?rs'] show ?case
    unfolding step up n by (simp add: algebra_simps)
qed

text \<open>
  C12. \<^verbatim>\<open>db.commit()\<close> keeps the table invariant (every row has an id, the ids are
  distinct, the NOT NULL columns are set), empties the session's pending objects, and
  does not touch the clock.
\<close>

theorem session_commit_table_ok:
  assumes "table_ok (table (sess_db s))" and "session_commit s = Inr s'"
  shows "table_ok (table (sess_db s')) \<and> pending s' = [] \<and> clock (sess_db s') = clock (sess_db s)"
proof -
  from assms(2) obtain rs where
    flush: "flush_rows (clock (sess_db s)) (table (sess_db s)) (pending s) = Inr rs"
    and s': "s' = \<lparr>sess_db = (sess_db s)\<lparr>table := rs\<rparr>, pending = []\<rparr>"
    by (auto simp: session_commit_Inr)
  from flush assms(1) have "table_ok rs" by (rule flush_rows_table_ok)
  with s' show ?thesis by simp
qed

theorem session_commit_table_ok_witness:
  "\<exists>s'. table_ok (table (sess_db \<lparr>sess_db = \<lparr>table = [], clock = 7\<rparr>, pending = [example_row]\<rparr>)) \<and>
     session_commit \<lparr>sess_db = \<lparr>table = [], clock = 7\<rparr>, pending = [example_row]\<rparr> = Inr s' \<and>
     table_ok (table (sess_db s')) \<and> pending s' = [] \<and> clock (sess_db s') = 7"
proof -
  let ?s = "\<lparr>sess_db = \<lparr>table = [], clock = 7::timestamp\<rparr>, pending = [example_row]\<rparr>"
  have ok: "table_ok (table (sess_db ?s))" by (simp add: table_ok_def)
  obtain s' where c: "session_commit ?s = Inr s'"
    by (simp add: session_commit_def example_row_def blank_activity_def)
  from session_commit_table_ok [OF ok c] ok c show ?thesis by auto
qed

text \<open>
  C11. What a commit of objects built in Python writes: the table gains the pending
  objects in the order they were added, with consecutive rowids from one more than
  the largest id (SQLite's choice for an INTEGER PRIMARY KEY without AUTOINCREMENT)
  and \<^verbatim>\<open>created_at\<close> set to the time of the commit; every other column is
  written as the object holds it.  In particular nothing rejects two activities of
  the same name: the schema declares no UNIQUE constraint on \<^verbatim>\<open>name\<close>.
\<close>

theorem session_commit_appends:
  assumes "list_all transient (pending s)"
  shows "session_commit s =
    Inr \<lparr>sess_db = (sess_db s)\<lparr>table := table (sess_db s) @
           map2 (stamp_row (clock (sess_db s)))
             [next_rowid (table (sess_db s))..next_rowid (table (sess_db s)) + int (length (pending s)) - 1]
             (pending s)\<rparr>,
         pending = []\<rparr>"
proof -
  have flush: "flush_rows t rs ps =
      Inr (rs @ map2 (stamp_row t) [next_rowid rs..next_rowid rs + int (length ps) - 1] ps)"
    if "\<forall>p\<in>set ps. transient p" for t rs ps
    using that
  proof (induction ps arbitrary: rs)
    case Nil
    then show ?case by simp
  next
    case (Cons a as)
    then have "name a \<noteq> None" "time a \<noteq> None" "activity_id a = None"
      by (simp_all add: transient_def not_null_ok_def)
    moreover have "[next_rowid rs..next_rowid rs + int (length (a # as)) - 1] =
        next_rowid rs # [next_rowid rs + 1..next_rowid rs + 1 + int (length as) - 1]"
      by (simp add: upto_rec1 algebra_simps)
    ultimately show ?case using Cons next_rowid_fresh [of rs] by (simp add: Let_def)
  qed
  from assms flush [of "pending s" "clock (sess_db s)" "table (sess_db s)"] show ?thesis
    by (simp add: session_commit_def list_all_iff)
qed

theorem session_commit_appends_witness:
  "list_all transient (pending \<lparr>sess_db = \<lparr>table = [], clock = 7\<rparr>, pending = [example_row, example_row]\<rparr>) \<and>
   session_commit \<lparr>sess_db = \<lparr>table = [], clock = 7\<rparr>, pending = [example_row, example_row]\<rparr> =
     Inr \<lparr>sess_db = \<lparr>table = [stamp_row 7 1 example_row, stamp_row 7 2 example_row], clock = 7\<rparr>, pending = []\<rparr> \<and>
   map name [stamp_row 7 1 example_row, stamp_row 7 2 example_row] = [Some ''Chess Club'', Some ''Chess Club'']"
  using session_commit_appends [of "\<lparr>sess_db = \<lparr>table = [], clock = 7\<rparr>, pending = [example_row, example_row]\<rparr>"]
  by (simp add: transient_def not_null_ok_def example_row_def blank_activity_def stamp_row_def upto.simps)

subsection \<open>Lookup by name\<close>

lemma find_name_in:
  "map name rs = map Some ns \<Longrightarrow> n \<in> set ns \<Longrightarrow> find (\<lambda>a. name a = Some n) rs \<noteq> None"
proof (induction rs arbitrary: ns)
  case Nil
  then show ?case by simp
next
  case (Cons r rs)
  then obtain m ms where "ns = m # ms" "name r = Some m" "map name rs = map Some ms" by auto
  with Cons show ?case by auto
qed

lemma find_name_notin:
  "map name rs = map Some ns \<Longrightarrow> n \<notin> set ns \<Longrightarrow> find (\<lambda>a. name a = Some n) rs = None"
proof (induction rs arbitrary: ns)
  case Nil
  then show ?case by simp
next
  case (Cons r rs)
  then obtain m ms where "ns = m # ms" "name r = Some m" "map name rs = map Some ms" by auto
  with Cons show ?case by auto
qed

end
