(* ===== verification/Seed.thy ===== *)
theory Seed
  imports Database
begin

text \<open>
  Start-up of \<^verbatim>\<open>src/src/app.py\<close>: \<^verbatim>\<open>create_all\<close> at import (line 18), the
  list \<^verbatim>\<open>initial_activities\<close>
  (lines 29--84), \<^verbatim>\<open>init_db\<close> (lines 86--92), which seeds the table only when
  it is empty, and the start-up hook \<^verbatim>\<open>startup_event\<close> (lines 100--104), which
  runs \<^verbatim>\<open>init_db\<close> on a session of its own.  Proved here: on an empty table the
  start-up succeeds and leaves the nine seed rows with ids 1 to 9 in seed order,
  distinct names and the table invariant; on a non-empty table it changes nothing;
  running it twice is running it once.  The seed dictionaries are written with the
  column each key names (\<open>NameCol\<close> for the key \<^verbatim>\<open>"name"\<close>, and so on), the
  keyword arguments the constructor model takes.
\<close>

definition initial_activities :: "(str_column \<times> string) list list" where
  "initial_activities = [
     [(NameCol, ''Chess Club''),
      (DescriptionCol, ''Learn strategies and compete in chess tournaments''),
      (TimeCol, ''Fridays, 3:30 PM - 5:00 PM''),
      (CategoryCol, ''Academic'')],
     [(NameCol, ''Programming Class''),
      (DescriptionCol, ''Learn programming fundamentals and build software projects''),
      (TimeCol, ''Tuesdays and Thursdays, 3:30 PM - 4:30 PM''),
      (CategoryCol, ''Academic'')],
     [(NameCol, ''Gym Class''),
      (DescriptionCol, ''Physical education and sports activities''),
      (TimeCol, ''Mondays, Wednesdays, Fridays, 2:00 PM - 3:00 PM''),
      (CategoryCol, ''Sports'')],
     [(NameCol, ''Soccer Team''),
      (DescriptionCol, ''Join the school soccer team and compete in matches''),
      (TimeCol, ''Tuesdays and Thursdays, 4:00 PM - 5:30 PM''),
      (CategoryCol, ''Sports'')],
     [(NameCol, ''Basketball Team''),
      (DescriptionCol, ''Practice and play basketball with the school team''),
      (TimeCol, ''Wednesdays and Fridays, 3:30 PM - 5:00 PM''),
      (CategoryCol, ''Sports'')],
     [(NameCol, ''Art Club''),
      (DescriptionCol, ''Explore your creativity through painting and drawing''),
      (TimeCol, ''Thursdays, 3:30 PM - 5:00 PM''),
      (CategoryCol, ''Arts'')],
     [(NameCol, ''Drama Club''),
      (DescriptionCol, ''Act, direct, and produce plays and performances''),
      (TimeCol, ''Mondays and Wednesdays, 4:00 PM - 5:30 PM''),
      (CategoryCol, ''Arts'')],
     [(NameCol, ''Math Club''),
      (DescriptionCol, ''Solve challenging problems and participate in math competitions''),
      (TimeCol, ''Tuesdays, 3:30 PM - 4:30 PM''),
      (CategoryCol, ''Academic'')],
     [(NameCol, ''Debate Team''),
      (DescriptionCol, ''Develop public speaking and argumentation skills''),
      (TimeCol, ''Fridays, 4:00 PM - 5:30 PM''),
      (CategoryCol, ''Academic'')]]"

text \<open>The loop of lines 89--91: build each object and add it to the session.\<close>

fun add_activities :: "session \<Rightarrow> (str_column \<times> string) list list \<Rightarrow> session" where
  "add_activities s [] = s"
| "add_activities s (d # ds) = add_activities (session_add s (activity_new d)) ds"

definition init_db :: "session \<Rightarrow> session py_result" where
  "init_db s =
     (if query_count s = 0 then session_commit (add_activities s initial_activities)
      else Inr s)"

text \<open>
  Line 18, run when the module is imported: \<^verbatim>\<open>Base.metadata.create_all\<close> creates
  the table \<^verbatim>\<open>activities\<close> if the database file has none and leaves an existing
  one alone; the process then reads the clock at \<open>t\<close>.
\<close>

definition create_all :: "db_state option \<Rightarrow> timestamp \<Rightarrow> db_state" where
  "create_all dbo t = (case dbo of None \<Rightarrow> \<lparr>table = [], clock = t\<rparr> | Some d \<Rightarrow> d\<lparr>clock := t\<rparr>)"

definition startup_event :: "db_state \<Rightarrow> db_state py_result" where
  "startup_event d = rbind (init_db (get_db d)) (\<lambda>s. Inr (sess_db s))"

definition seed_names :: "string list" where
  "seed_names = map (\<lambda>d. the (map_of d NameCol)) initial_activities"

subsection \<open>Start-up on an empty and on a seeded table\<close>

lemmas seed_eval = startup_event_def init_db_def get_db_def query_count_def initial_activities_def
     activity_new_def blank_activity_def session_add_def session_commit_def next_rowid_def row_id_def stamp_row_def

lemma startup_event_nonempty: "table d \<noteq> [] \<Longrightarrow> startup_event d = Inr d"
  by (simp add: startup_event_def init_db_def query_count_def get_db_def)

lemma init_db_seeds:
  assumes "table (sess_db s) = []" and "pending s = []"
  shows "\<exists>rs. init_db s = Inr \<lparr>sess_db = (sess_db s)\<lparr>table := rs\<rparr>, pending = []\<rparr> \<and>
     map activity_id rs = map Some [1..9] \<and> map name rs = map Some seed_names \<and>
     distinct (map name rs) \<and> table_ok rs \<and>
     (\<forall>a\<in>set rs. created_at a = Some (clock (sess_db s)))"
proof (cases s)
  case (fields d p)
  with assms show ?thesis
    by (cases d) (simp add: seed_eval seed_names_def table_ok_def not_null_ok_def upto.simps)
qed

lemma startup_event_fresh:
  assumes "table d = []"
  shows "\<exists>rs. startup_event d = Inr (d\<lparr>table := rs\<rparr>) \<and> rs \<noteq> [] \<and>
     map name rs = map Some seed_names \<and> distinct (map name rs) \<and> table_ok rs"
proof -
  have "table (sess_db (get_db d)) = []" "pending (get_db d) = []"
    using assms by (simp_all add: get_db_def)
  from init_db_seeds [OF this] obtain rs where
    run: "init_db (get_db d) = Inr \<lparr>sess_db = d\<lparr>table := rs\<rparr>, pending = []\<rparr>"
    and ids: "map activity_id rs = map Some [1..9]"
    and names: "map name rs = map Some seed_names" "distinct (map name rs)" "table_ok rs"
    by (auto simp: get_db_def)
  from ids have "rs \<noteq> []" by (auto simp: upto.simps)
  with run names show ?thesis by (auto simp: startup_event_def)
qed

text \<open>
  C5. Start-up on an empty table succeeds and leaves exactly the nine seed rows, in
  the order of \<^verbatim>\<open>initial_activities\<close>, with ids 1 to 9, their names, the start
  time as \<^verbatim>\<open>created_at\<close>, distinct ids and the NOT NULL columns set.
\<close>

theorem startup_event_seeded_rows:
  assumes "table d = []"
  shows "\<exists>rs. startup_event d = Inr (d\<lparr>table := rs\<rparr>) \<and>
     map activity_id rs = map Some [1..9] \<and> map name rs = map Some seed_names \<and>
     table_ok rs \<and> (\<forall>a\<in>set rs. created_at a = Some (clock d))"
  using assms
  by (cases d) (simp add: seed_eval seed_names_def table_ok_def not_null_ok_def upto.simps)

theorem startup_event_seeded_rows_witness:
  "table \<lparr>table = [], clock = 0\<rparr> = [] \<and>
   (\<exists>rs. startup_event \<lparr>table = [], clock = 0\<rparr> = Inr \<lparr>table = rs, clock = 0\<rparr> \<and>
     map activity_id rs = map Some [1..9] \<and> map name rs = map Some seed_names \<and>
     table_ok rs \<and> (\<forall>a\<in>set rs. created_at a = Some 0))"
  using startup_event_seeded_rows [of "\<lparr>table = [], clock = 0\<rparr>"] by simp

text \<open>
  C6. Start-up is idempotent: running \<^verbatim>\<open>startup_event\<close> on the database one
  start-up left changes nothing (the seed is written at most once).
\<close>

theorem startup_event_twice:
  assumes "startup_event d = Inr d'"
  shows "startup_event d' = Inr d'"
proof (cases "table d = []")
  case True
  then obtain rs where "startup_event d = Inr (d\<lparr>table := rs\<rparr>)" and "rs \<noteq> []"
    using startup_event_fresh by blast
  with assms have "table d' \<noteq> []" by auto
  then show ?thesis by (rule startup_event_nonempty)
next
  case False
  with assms show ?thesis by (simp add: startup_event_nonempty)
qed

theorem startup_event_twice_witness:
  "\<exists>d'. startup_event \<lparr>table = [], clock = 0\<rparr> = Inr d' \<and> startup_event d' = Inr d'"
proof -
  obtain rs where "startup_event \<lparr>table = [], clock = 0\<rparr> = Inr \<lparr>table = rs, clock = 0\<rparr>"
    using startup_event_fresh [of "\<lparr>table = [], clock = 0\<rparr>"] by auto
  with startup_event_twice show ?thesis by blast
qed

end
