(* ===== verification/Handlers.thy ===== *)
theory Handlers
  imports PyValue Seed
begin

text \<open>
  The four path operations of \<^verbatim>\<open>src/src/app.py\<close>, each as the body the
  decorator registers: \<^verbatim>\<open>root\<close> (lines 95--97), \<^verbatim>\<open>get_activities\<close>
  (lines 107--111), \<^verbatim>\<open>signup_for_activity\<close> (lines 114--131) and
  \<^verbatim>\<open>unregister_from_activity\<close> (lines 134--153).  A handler takes the
  request's session (from \<open>get_db\<close>), the Python heap and the module's globals it
  reads, and returns either the exception it raises or the value it returns together
  with the heap it leaves.

  The two mutating handlers are written exactly as the source, statement by
  statement, over the Python runtime fragment of \<open>PyValue\<close>.  The signup body is
  applied to whatever \<^verbatim>\<open>activity\<close> denotes: for the value the ORM query
  returns, an \<^verbatim>\<open>Activity\<close> instance, the first subscription
  \<^verbatim>\<open>activity["participants"]\<close> raises \<^verbatim>\<open>TypeError\<close>.  The unregister
  handler reads the global \<^verbatim>\<open>activities\<close>, which the module never binds
  (\<open>app_globals\<close> lists what it binds), so it raises \<^verbatim>\<open>NameError\<close>.  The
  lemmas of this theory state both behaviours for every input.  The statements after
  the first failing one (the membership tests, \<^verbatim>\<open>append\<close> and
  \<^verbatim>\<open>remove\<close>) are modelled as written but never run in this program.
\<close>

text \<open>
  The responses the application produces; \<open>FrameworkResponse\<close> stands for the
  answer of a part of the framework the model does not look into (a file served
  from \<^verbatim>\<open>static/\<close>, the generated API documentation).
\<close>

datatype http_response =
    JSONResponse nat json
  | RedirectResponse nat string
  | PlainTextResponse nat string
  | FrameworkResponse string

text \<open>
  \<^verbatim>\<open>RedirectResponse(url=...)\<close> without a status code answers with
  Starlette's default, 307.
\<close>

definition root :: http_response where
  "root = RedirectResponse 307 ''/static/index.html''"

definition get_activities :: "session \<Rightarrow> json" where
  "get_activities db = JArr (map to_dict (query_all db))"

definition signup_message :: "email \<Rightarrow> string \<Rightarrow> json" where
  "signup_message email activity_name =
     JObj [(''message'', JStr (''Signed up '' @ email @ '' for '' @ activity_name))]"

definition unregister_message :: "email \<Rightarrow> string \<Rightarrow> json" where
  "unregister_message email activity_name =
     JObj [(''message'', JStr (''Unregistered '' @ email @ '' from '' @ activity_name))]"

text \<open>
  Lines 122--131, from the check of membership on: \<^verbatim>\<open>activity["participants"]\<close>
  is evaluated twice, once for the test and once for the append.
\<close>

definition signup_body :: "heap \<Rightarrow> pyval \<Rightarrow> string \<Rightarrow> email \<Rightarrow> (heap \<times> json) py_result" where
  "signup_body h activity activity_name email =
     rbind (py_getitem h activity (PStr ''participants'')) (\<lambda>ps.
     rbind (py_contains h ps (PStr email)) (\<lambda>registered.
     if registered then Inl (HTTPException 400 ''Student is already signed up'')
     else
       rbind (py_getitem h activity (PStr ''participants'')) (\<lambda>ps'.
       rbind (py_append h ps' (PStr email)) (\<lambda>h'.
       Inr (h', signup_message email activity_name)))))"

text \<open>
  Lines 118--120: \<^verbatim>\<open>.first()\<close> returns \<^verbatim>\<open>None\<close> or an \<^verbatim>\<open>Activity\<close>
  instance, and \<^verbatim>\<open>if not activity\<close> tests its truth value.
\<close>

definition query_value :: "activity option \<Rightarrow> pyval" where
  "query_value r = (case r of None \<Rightarrow> PNone | Some a \<Rightarrow> PObj a)"

definition signup_for_activity ::
  "session \<Rightarrow> heap \<Rightarrow> string \<Rightarrow> email \<Rightarrow> (heap \<times> json) py_result" where
  "signup_for_activity db h activity_name email =
     (let activity = query_value (query_first_by_name db activity_name) in
      if \<not> py_truthy h activity then Inl (HTTPException 404 ''Activity not found'')
      else signup_body h activity activity_name email)"

definition unregister_from_activity ::
  "globals \<Rightarrow> heap \<Rightarrow> string \<Rightarrow> email \<Rightarrow> (heap \<times> json) py_result" where
  "unregister_from_activity g h activity_name email =
     rbind (py_global g ''activities'') (\<lambda>activities.
     rbind (py_contains h activities (PStr activity_name)) (\<lambda>found.
     if \<not> found then Inl (HTTPException 404 ''Activity not found'')
     else
       rbind (py_global g ''activities'') (\<lambda>activities'.
       rbind (py_getitem h activities' (PStr activity_name)) (\<lambda>activity.
       rbind (py_getitem h activity (PStr ''participants'')) (\<lambda>ps.
       rbind (py_contains h ps (PStr email)) (\<lambda>registered.
       if \<not> registered then Inl (HTTPException 400 ''Student is not signed up for this activity'')
       else
         rbind (py_getitem h activity (PStr ''participants'')) (\<lambda>ps'.
         rbind (py_remove h ps' (PStr email)) (\<lambda>h'.
         Inr (h', unregister_message email activity_name)))))))))"

text \<open>
  The names \<^verbatim>\<open>app.py\<close> binds at module level: its imports (lines 8--15), the
  objects of lines 20--29, and the functions it defines.  No handler reads their
  values except through the name \<^verbatim>\<open>activities\<close>, which is not among them, so each
  is bound to an opaque value.
\<close>

definition app_module_names :: "string list" where
  "app_module_names =
     [''FastAPI'', ''HTTPException'', ''Depends'', ''StaticFiles'', ''RedirectResponse'',
      ''os'', ''Path'', ''Session'', ''get_db'', ''Base'', ''engine'', ''Activity'',
      ''app'', ''current_dir'', ''initial_activities'', ''init_db'', ''root'',
      ''startup_event'', ''get_activities'', ''signup_for_activity'',
      ''unregister_from_activity'']"

definition app_globals :: globals where
  "app_globals x = (if x \<in> set app_module_names then Some (POpaque x) else None)"

subsection \<open>Behaviour of the handlers as written\<close>

lemma query_value_truthy [simp]:
  "py_truthy h (query_value r) \<longleftrightarrow> r \<noteq> None"
  by (cases r) (simp_all add: query_value_def)

lemma signup_body_obj:
  "signup_body h (PObj a) n e = Inl (TypeError (py_quote ''Activity'' @ '' object is not subscriptable''))"
  by (simp add: signup_body_def py_simps)

lemma app_globals_activities [simp]: "app_globals ''activities'' = None"
  by (simp add: app_globals_def app_module_names_def)

text \<open>
  C1. \<^verbatim>\<open>signup_for_activity\<close> never signs anyone up: for an unknown activity
  name it raises \<^verbatim>\<open>HTTPException(404, "Activity not found")\<close>, and for an
  existing one the subscription \<^verbatim>\<open>activity["participants"]\<close> of the ORM
  instance raises \<^verbatim>\<open>TypeError\<close>, whatever the heap, the name and the email.
\<close>

lemma signup_for_activity_result:
  "signup_for_activity db h activity_name email =
     (case query_first_by_name db activity_name of
        None \<Rightarrow> Inl (HTTPException 404 ''Activity not found'')
      | Some a \<Rightarrow> Inl (TypeError (py_quote ''Activity'' @ '' object is not subscriptable'')))"
  by (cases "query_first_by_name db activity_name")
     (simp_all add: signup_for_activity_def query_value_def signup_body_obj)

text \<open>
  C2. \<^verbatim>\<open>unregister_from_activity\<close>, run in the module \<^verbatim>\<open>app.py\<close>, raises
  \<^verbatim>\<open>NameError: name 'activities' is not defined\<close> on every input: its first
  statement reads a global the module never binds.
\<close>

lemma unregister_from_activity_result:
  "unregister_from_activity app_globals h activity_name email =
     Inl (NameError (''name '' @ py_quote ''activities'' @ '' is not defined''))"
  by (simp add: unregister_from_activity_def py_simps)

end
