(* ===== verification/Api.thy ===== *)
theory Api
  imports Handlers
begin

text \<open>
  The application object of \<^verbatim>\<open>src/src/app.py\<close> as the server sees it: the route
  table in registration order (the documentation routes \<^verbatim>\<open>FastAPI(...)\<close> adds at
  lines 20--21, the mount of \<^verbatim>\<open>/static\<close> at line 25, and the four path operations
  of lines 95--134), the framework's dispatch of a request to a route (404 for no
  route, 405 for a route of another method, 422 for a missing required query
  parameter, and Starlette's 307 redirect for a path that matches a route once its
  trailing slashes are stripped or a slash is added), the conversion of the handler's
  result into a response (an \<^verbatim>\<open>HTTPException\<close> becomes its status and
  \<^verbatim>\<open>{"detail": ...}\<close>, any other exception a plain-text 500), and the server's
  life: \<^verbatim>\<open>startup_event\<close> once, then any sequence of requests.  The server state is
  the database and the Python heap.  Proved here: the routes round-trip in both
  directions; the framework answers 404, 405, 422 and the slash redirect before any
  handler runs; no request changes the server state; every signup or unregister of a
  freshly started server answers 500 or 404; in every reachable state the activity
  list is the table the start-up left (from a fresh database, the nine seed names,
  each once), the table invariant holds, and a restart of the process keeps the
  table.
\<close>

datatype http_method = GET | HEAD | POST | PUT | PATCH | DELETE | OPTIONS

record request =
  req_method :: http_method
  req_path :: string
  req_query :: "(string \<times> string) list"

datatype endpoint =
    EP_Docs string
  | EP_Static "string list"
  | EP_Root
  | EP_GetActivities
  | EP_Signup string
  | EP_Unregister string

text \<open>
  A URL path is split at \<^verbatim>\<open>/\<close> after its leading slash, as Starlette's path
  regular expressions do; a path parameter matches one non-empty segment.  A path
  without a leading slash (the server never receives one; only the slash toggling
  of the router below can make one, from \<^verbatim>\<open>//\<close>) gets an empty first segment,
  which no route has.
\<close>

fun split_segments :: "string \<Rightarrow> string list" where
  "split_segments [] = [[]]"
| "split_segments (c # cs) =
     (if c = CHR ''/'' then [] # split_segments cs
      else (case split_segments cs of [] \<Rightarrow> [[c]] | s # ss \<Rightarrow> (c # s) # ss))"

definition path_segments :: "string \<Rightarrow> string list" where
  "path_segments p = (case p of
       [] \<Rightarrow> [[], []]
     | c # cs \<Rightarrow> (if c = CHR ''/'' then (if cs = [] then [] else split_segments cs)
                 else [] # split_segments p))"

text \<open>
  The routes of the application in the order they are registered, which is the order
  Starlette's router tries them: the documentation routes \<^verbatim>\<open>FastAPI(...)\<close> adds
  when the application is created (lines 20--21), the mount of \<^verbatim>\<open>/static\<close>
  (lines 25--26, a prefix: it needs at least one segment after \<^verbatim>\<open>static\<close>), and the
  four path operations in the order of their decorators.  A route answers the
  endpoint it selects and the methods it allows.
\<close>

type_synonym route = "string list \<Rightarrow> (endpoint \<times> http_method list) option"

definition docs_routes :: route where
  "docs_routes segs =
     (if segs = [''openapi.json''] then Some (EP_Docs ''openapi.json'', [GET, HEAD])
      else if segs = [''docs''] then Some (EP_Docs ''docs'', [GET, HEAD])
      else if segs = [''docs'', ''oauth2-redirect''] then Some (EP_Docs ''docs/oauth2-redirect'', [GET, HEAD])
      else if segs = [''redoc''] then Some (EP_Docs ''redoc'', [GET, HEAD])
      else None)"

definition static_route :: route where
  "static_route segs =
     (if 2 \<le> length segs \<and> hd segs = ''static'' then Some (EP_Static (tl segs), [GET, HEAD]) else None)"

definition root_route :: route where
  "root_route segs = (if segs = [] then Some (EP_Root, [GET]) else None)"

definition activities_route :: route where
  "activities_route segs = (if segs = [''activities''] then Some (EP_GetActivities, [GET]) else None)"

definition signup_route :: route where
  "signup_route segs =
     (if length segs = 3 \<and> segs ! 0 = ''activities'' \<and> segs ! 1 \<noteq> [] \<and> segs ! 2 = ''signup''
      then Some (EP_Signup (segs ! 1), [POST]) else None)"

definition unregister_route :: route where
  "unregister_route segs =
     (if length segs = 3 \<and> segs ! 0 = ''activities'' \<and> segs ! 1 \<noteq> [] \<and> segs ! 2 = ''unregister''
      then Some (EP_Unregister (segs ! 1), [DELETE]) else None)"

definition app_routes :: "route list" where
  "app_routes = [docs_routes, static_route, root_route, activities_route, signup_route, unregister_route]"

fun first_match :: "route list \<Rightarrow> string list \<Rightarrow> (endpoint \<times> http_method list) option" where
  "first_match [] segs = None"
| "first_match (r # rs) segs = (case r segs of Some x \<Rightarrow> Some x | None \<Rightarrow> first_match rs segs)"

definition match_route :: "string list \<Rightarrow> (endpoint \<times> http_method list) option" where
  "match_route segs = first_match app_routes segs"

definition detail_response :: "nat \<Rightarrow> string \<Rightarrow> http_response" where
  "detail_response c d = JSONResponse c (JObj [(''detail'', JStr d)])"

primrec exc_response :: "py_exc \<Rightarrow> http_response" where
  "exc_response (HTTPException c d) = detail_response c d"
| "exc_response (TypeError m) = PlainTextResponse 500 ''Internal Server Error''"
| "exc_response (KeyError m) = PlainTextResponse 500 ''Internal Server Error''"
| "exc_response IndexError = PlainTextResponse 500 ''Internal Server Error''"
| "exc_response (ValueError m) = PlainTextResponse 500 ''Internal Server Error''"
| "exc_response (AttributeError m) = PlainTextResponse 500 ''Internal Server Error''"
| "exc_response (NameError m) = PlainTextResponse 500 ''Internal Server Error''"
| "exc_response (IntegrityError m) = PlainTextResponse 500 ''Internal Server Error''"

text \<open>FastAPI's 422 answer for a required query parameter that is absent.\<close>

definition missing_query_response :: "string \<Rightarrow> http_response" where
  "missing_query_response p =
     JSONResponse 422 (JObj [(''detail'', JArr [JObj [
        (''type'', JStr ''missing''), (''loc'', JArr [JStr ''query'', JStr p]),
        (''msg'', JStr ''Field required''), (''input'', JNull)]])])"

text \<open>A query parameter given several times takes its last value.\<close>

definition query_param :: "(string \<times> string) list \<Rightarrow> string \<Rightarrow> string option" where
  "query_param q k = map_of (rev q) k"

record server =
  srv_db :: db_state
  srv_heap :: heap

text \<open>
  The end of a request: the session is closed without a commit, so the database is
  the one the request started from; a returned value becomes a 200 JSON response and
  the heap the handler left is kept.  Both mutating handlers mutate only in their
  last statement, so an exception leaves the heap as it was.
\<close>

definition finish :: "server \<Rightarrow> (heap \<times> json) py_result \<Rightarrow> http_response \<times> server" where
  "finish s r = (case r of
       Inl e \<Rightarrow> (exc_response e, s)
     | Inr (h', j) \<Rightarrow> (JSONResponse 200 j, s\<lparr>srv_heap := h'\<rparr>))"

definition run_endpoint ::
  "server \<Rightarrow> endpoint \<Rightarrow> (string \<times> string) list \<Rightarrow> http_response \<times> server" where
  "run_endpoint s ep q = (case ep of
       EP_Docs d \<Rightarrow> (FrameworkResponse d, s)
     | EP_Static p \<Rightarrow> (FrameworkResponse (''static/'' @ concat (map (\<lambda>x. x @ ''/'') p)), s)
     | EP_Root \<Rightarrow> (root, s)
     | EP_GetActivities \<Rightarrow>
         (JSONResponse 200 (get_activities (get_db (srv_db s))), s)
     | EP_Signup n \<Rightarrow> (case query_param q ''email'' of
           None \<Rightarrow> (missing_query_response ''email'', s)
         | Some e \<Rightarrow> finish s (signup_for_activity (get_db (srv_db s)) (srv_heap s) n e))
     | EP_Unregister n \<Rightarrow> (case query_param q ''email'' of
           None \<Rightarrow> (missing_query_response ''email'', s)
         | Some e \<Rightarrow> finish s (unregister_from_activity app_globals (srv_heap s) n e)))"

text \<open>
  Starlette's \<^verbatim>\<open>redirect_slashes\<close>: when no route matches a path other than
  \<^verbatim>\<open>/\<close>, the router strips every trailing slash from it (\<^verbatim>\<open>rstrip("/")\<close>)
  or, if it has none, appends one; if some route matches the result, whatever its
  methods, the answer is a 307 redirect to it with the same query string.  Starlette
  writes the absolute URL, prefixed with the scheme and host of the request, which the
  request record does not carry; the query string is written back from its pairs.
\<close>

definition strip_trailing_slashes :: "string \<Rightarrow> string" where
  "strip_trailing_slashes p = rev (dropWhile (\<lambda>c. c = CHR ''/'') (rev p))"

definition toggle_trailing_slash :: "string \<Rightarrow> string" where
  "toggle_trailing_slash p =
     (if p \<noteq> [] \<and> last p = CHR ''/'' then strip_trailing_slashes p else p @ ''/'')"

fun query_string :: "(string \<times> string) list \<Rightarrow> string" where
  "query_string [] = []"
| "query_string [(k, v)] = k @ ''='' @ v"
| "query_string ((k, v) # kvs) = k @ ''='' @ v @ ''&'' @ query_string kvs"

definition redirect_target :: "request \<Rightarrow> string \<Rightarrow> string" where
  "redirect_target r p = p @ (if req_query r = [] then [] else ''?'' @ query_string (req_query r))"

definition handle :: "server \<Rightarrow> request \<Rightarrow> http_response \<times> server" where
  "handle s r = (case match_route (path_segments (req_path r)) of
       None \<Rightarrow>
         (let p' = toggle_trailing_slash (req_path r) in
          if req_path r \<noteq> ''/'' \<and> match_route (path_segments p') \<noteq> None
          then (RedirectResponse 307 (redirect_target r p'), s)
          else (detail_response 404 ''Not Found'', s))
     | Some (ep, ms) \<Rightarrow>
         if req_method r \<in> set ms then run_endpoint s ep (req_query r)
         else (detail_response 405 ''Method Not Allowed'', s))"

text \<open>
  The URL of each path operation of the application, and the path parameters a
  route accepts: one non-empty segment.
\<close>

definition valid_segment :: "string \<Rightarrow> bool" where
  "valid_segment n \<longleftrightarrow> n \<noteq> [] \<and> CHR ''/'' \<notin> set n"

fun endpoint_path :: "endpoint \<Rightarrow> string" where
  "endpoint_path EP_Root = ''/''"
| "endpoint_path EP_GetActivities = ''/activities''"
| "endpoint_path (EP_Signup n) = ''/activities/'' @ n @ ''/signup''"
| "endpoint_path (EP_Unregister n) = ''/activities/'' @ n @ ''/unregister''"
| "endpoint_path (EP_Docs d) = ''/'' @ d"
| "endpoint_path (EP_Static p) = ''/static/'' @ concat (map (\<lambda>x. x @ ''/'') p)"

fun app_endpoint :: "endpoint \<Rightarrow> bool" where
  "app_endpoint EP_Root = True"
| "app_endpoint EP_GetActivities = True"
| "app_endpoint (EP_Signup n) = valid_segment n"
| "app_endpoint (EP_Unregister n) = valid_segment n"
| "app_endpoint _ = False"

text \<open>
  The server's runs: it starts from the database file \<open>d0\<close> it finds, runs the
  start-up hook (a failing hook stops the server), and then answers requests one
  after the other.
\<close>

fun serve :: "server \<Rightarrow> request list \<Rightarrow> http_response list \<times> server" where
  "serve s [] = ([], s)"
| "serve s (r # rs) =
     (let (resp, s') = handle s r; (resps, s'') = serve s' rs in (resp # resps, s''))"

definition json_field :: "string \<Rightarrow> json \<Rightarrow> json option" where
  "json_field k j = (case j of JObj kvs \<Rightarrow> map_of kvs k | _ \<Rightarrow> None)"

inductive reachable :: "db_state \<Rightarrow> server \<Rightarrow> bool" for d0 :: db_state where
  start: "startup_event d0 = Inr d \<Longrightarrow> reachable d0 \<lparr>srv_db = d, srv_heap = h\<rparr>"
| step: "reachable d0 s \<Longrightarrow> handle s r = (resp, s') \<Longrightarrow> reachable d0 s'"

subsection \<open>Routes\<close>

lemmas route_defs = match_route_def app_routes_def docs_routes_def static_route_def root_route_def
  activities_route_def signup_route_def unregister_route_def

lemma split_segments_noslash:
  "CHR ''/'' \<notin> set n \<Longrightarrow> split_segments (n @ CHR ''/'' # rest) = n # split_segments rest"
  by (induction n) auto

lemma split_segments_noslash_end: "CHR ''/'' \<notin> set n \<Longrightarrow> split_segments n = [n]"
  by (induction n) auto

lemma path_segments_route:
  assumes "n \<noteq> []" "CHR ''/'' \<notin> set n"
  shows "path_segments (''/activities/'' @ n @ ''/signup'') = [''activities'', n, ''signup'']"
    and "path_segments (''/activities/'' @ n @ ''/unregister'') = [''activities'', n, ''unregister'']"
  using assms by (simp_all add: path_segments_def split_segments_noslash split_segments_noslash_end)

lemma split_segments_noslash_all: "s \<in> set (split_segments cs) \<Longrightarrow> CHR ''/'' \<notin> set s"
proof (induction cs arbitrary: s rule: split_segments.induct)
  case 1
  then show ?case by simp
next
  case (2 c cs)
  then show ?case by (auto split: if_splits list.splits)
qed

lemma path_segments_noslash: "s \<in> set (path_segments p) \<Longrightarrow> CHR ''/'' \<notin> set s"
  unfolding path_segments_def
  by (auto split: list.splits if_splits dest: split_segments_noslash_all simp del: split_segments.simps)

lemma path_segments_root: "path_segments ''/'' = []"
  by (simp add: path_segments_def)

lemma split_segments_slashes: "split_segments (replicate k CHR ''/'') = replicate (Suc k) []"
  by (induction k) auto

lemma split_segments_noslash_slashes:
  assumes "CHR ''/'' \<notin> set x"
  shows "split_segments (x @ replicate k CHR ''/'') = x # replicate k []"
proof (cases k)
  case 0
  then show ?thesis using assms by (simp add: split_segments_noslash_end)
next
  case (Suc j)
  then show ?thesis using assms split_segments_noslash [of x "replicate j CHR ''/''"]
    by (simp add: split_segments_slashes)
qed

lemma app_endpoint_routed:
  "app_endpoint ep \<Longrightarrow> \<exists>ms. match_route (path_segments (endpoint_path ep)) = Some (ep, ms)"
proof (cases ep)
  case (EP_Signup n)
  moreover assume "app_endpoint ep"
  ultimately have ok: "n \<noteq> []" "CHR ''/'' \<notin> set n" by (simp_all add: valid_segment_def)
  from path_segments_route(1) [OF ok] ok EP_Signup show ?thesis by (simp add: route_defs)
next
  case (EP_Unregister n)
  moreover assume "app_endpoint ep"
  ultimately have ok: "n \<noteq> []" "CHR ''/'' \<notin> set n" by (simp_all add: valid_segment_def)
  from path_segments_route(2) [OF ok] ok EP_Unregister show ?thesis by (simp add: route_defs)
qed (simp_all add: path_segments_def route_defs)

lemma endpoint_path_slashes:
  assumes "app_endpoint ep" and "ep \<noteq> EP_Root"
  shows "endpoint_path ep \<noteq> [] \<and> last (endpoint_path ep) \<noteq> CHR ''/'' \<and>
    path_segments (endpoint_path ep @ replicate k CHR ''/'') = path_segments (endpoint_path ep) @ replicate k []"
proof (cases ep)
  case EP_GetActivities
  then show ?thesis
    using split_segments_noslash_slashes [of "''activities''" k] split_segments_noslash_end [of "''activities''"]
    by (simp add: path_segments_def)
next
  case (EP_Signup n)
  with assms(1) have ok: "n \<noteq> []" "CHR ''/'' \<notin> set n" by (simp_all add: valid_segment_def)
  have "split_segments (''activities/'' @ n @ ''/signup'' @ replicate k CHR ''/'') =
      ''activities'' # n # ''signup'' # replicate k []"
    using split_segments_noslash [of "''activities''" "n @ ''/signup'' @ replicate k CHR ''/''"]
      split_segments_noslash [OF ok(2), of "''signup'' @ replicate k CHR ''/''"]
      split_segments_noslash_slashes [of "''signup''" k] by simp
  with EP_Signup ok show ?thesis using path_segments_route(1) [OF ok] by (simp add: path_segments_def)
next
  case (EP_Unregister n)
  with assms(1) have ok: "n \<noteq> []" "CHR ''/'' \<notin> set n" by (simp_all add: valid_segment_def)
  have "split_segments (''activities/'' @ n @ ''/unregister'' @ replicate k CHR ''/'') =
      ''activities'' # n # ''unregister'' # replicate k []"
    using split_segments_noslash [of "''activities''" "n @ ''/unregister'' @ replicate k CHR ''/''"]
      split_segments_noslash [OF ok(2), of "''unregister'' @ replicate k CHR ''/''"]
      split_segments_noslash_slashes [of "''unregister''" k] by simp
  with EP_Unregister ok show ?thesis using path_segments_route(2) [OF ok] by (simp add: path_segments_def)
qed (use assms in simp_all)

lemma match_route_slashes:
  assumes "app_endpoint ep" and "ep \<noteq> EP_Root" and "0 < k"
  shows "match_route (path_segments (endpoint_path ep) @ replicate k []) = None"
proof -
  obtain j where k: "k = Suc j" using assms(3) by (cases k) auto
  show ?thesis
  proof (cases ep)
    case (EP_Signup n)
    with assms(1) have ok: "n \<noteq> []" "CHR ''/'' \<notin> set n" by (simp_all add: valid_segment_def)
    with EP_Signup k show ?thesis using path_segments_route(1) [OF ok] by (simp add: route_defs)
  next
    case (EP_Unregister n)
    with assms(1) have ok: "n \<noteq> []" "CHR ''/'' \<notin> set n" by (simp_all add: valid_segment_def)
    with EP_Unregister k show ?thesis using path_segments_route(2) [OF ok] by (simp add: route_defs)
  qed (use assms k in \<open>simp_all add: path_segments_def route_defs\<close>)
qed

lemma handle_signup:
  assumes "n \<noteq> []" "CHR ''/'' \<notin> set n"
  shows "handle s \<lparr>req_method = POST, req_path = ''/activities/'' @ n @ ''/signup'', req_query = [(''email'', e)]\<rparr> =
         finish s (signup_for_activity (get_db (srv_db s)) (srv_heap s) n e)"
  using assms path_segments_route(1) [OF assms]
  by (simp add: handle_def route_defs run_endpoint_def query_param_def)

lemma handle_unregister:
  assumes "n \<noteq> []" "CHR ''/'' \<notin> set n"
  shows "handle s \<lparr>req_method = DELETE, req_path = ''/activities/'' @ n @ ''/unregister'', req_query = [(''email'', e)]\<rparr> =
         finish s (unregister_from_activity app_globals (srv_heap s) n e)"
  using assms path_segments_route(2) [OF assms]
  by (simp add: handle_def route_defs run_endpoint_def query_param_def)

lemma signup_for_activity_not_Inr: "signup_for_activity db h n e \<noteq> Inr x"
  by (simp add: signup_for_activity_def Let_def signup_body_obj query_value_def split: option.splits)

lemma unregister_app_not_Inr: "unregister_from_activity app_globals h n e \<noteq> Inr x"
  by (simp add: unregister_from_activity_def py_simps)

lemma finish_not_Inr: "(\<And>x. r \<noteq> Inr x) \<Longrightarrow> snd (finish s r) = s"
  by (cases r) (auto simp: finish_def)

subsection \<open>Requests leave the state unchanged\<close>

lemma handle_state_unchanged: "snd (handle s r) = s"
  by (auto simp: handle_def run_endpoint_def finish_not_Inr signup_for_activity_not_Inr
        unregister_app_not_Inr Let_def split: option.split endpoint.split)

lemma reachable_db_startup: "reachable d0 s \<Longrightarrow> startup_event d0 = Inr (srv_db s)"
proof (induction rule: reachable.induct)
  case (start d h)
  then show ?case by simp
next
  case (step s r resp s')
  then have "s' = s" using handle_state_unchanged [of s r] by simp
  with step.IH show ?case by simp
qed

lemma json_field_name_to_dict: "json_field ''name'' (to_dict a) = Some (opt_json JStr (name a))"
  by (simp add: json_field_def to_dict_def)

lemma path_segments_activities: "path_segments ''/activities'' = [''activities'']"
  by (simp add: path_segments_def)

lemma handle_get_activities:
  "handle s \<lparr>req_method = GET, req_path = ''/activities'', req_query = q\<rparr> =
     (JSONResponse 200 (JArr (map to_dict (table (srv_db s)))), s)"
  by (simp add: handle_def path_segments_activities route_defs run_endpoint_def
      get_activities_def query_all_def get_db_def)

lemma reachable_fresh_names:
  assumes "table d0 = []" and "reachable d0 s"
  shows "map name (table (srv_db s)) = map Some seed_names"
proof -
  from assms(2) have run: "startup_event d0 = Inr (srv_db s)" by (rule reachable_db_startup)
  from startup_event_fresh [OF assms(1)] obtain rs where
    "startup_event d0 = Inr (d0\<lparr>table := rs\<rparr>)" and names: "map name rs = map Some seed_names"
    by blast
  with run have "srv_db s = d0\<lparr>table := rs\<rparr>" by simp
  with names show ?thesis by simp
qed

text \<open>
  C4. In every state of a server started on an empty database, \<^verbatim>\<open>GET /activities\<close>
  answers 200 with one object per seed activity, whose \<^verbatim>\<open>name\<close> fields are
  the seed names in seed order, each once, and leaves the state as it was.
\<close>

theorem activities_list_fresh_db:
  assumes "table d0 = []" and "reachable d0 s"
  shows "\<exists>js. handle s \<lparr>req_method = GET, req_path = ''/activities'', req_query = q\<rparr> =
           (JSONResponse 200 (JArr js), s) \<and>
         map (json_field ''name'') js = map (\<lambda>n. Some (JStr n)) seed_names \<and>
         distinct (map (json_field ''name'') js)"
proof -
  from assms(2) have run: "startup_event d0 = Inr (srv_db s)" by (rule reachable_db_startup)
  from startup_event_fresh [OF assms(1)] obtain rs where
    "startup_event d0 = Inr (d0\<lparr>table := rs\<rparr>)" and names: "map name rs = map Some seed_names"
    and dist: "distinct (map name rs)" by blast
  with run have "srv_db s = d0\<lparr>table := rs\<rparr>" by simp
  then have tbl: "table (srv_db s) = rs" by simp
  let ?js = "map to_dict rs"
  have "map (json_field ''name'') ?js = map (\<lambda>x. Some (opt_json JStr x)) (map name rs)"
    by (simp add: json_field_name_to_dict)
  also have "\<dots> = map (\<lambda>n. Some (JStr n)) seed_names"
    by (simp add: names)
  finally have js_names: "map (json_field ''name'') ?js = map (\<lambda>n. Some (JStr n)) seed_names" .
  have "distinct (map (\<lambda>x. Some (opt_json JStr x)) (map name rs))"
    using dist by (auto simp: distinct_map inj_on_def names)
  then have "distinct (map (json_field ''name'') ?js)"
    by (simp add: json_field_name_to_dict comp_def)
  moreover have "handle s \<lparr>req_method = GET, req_path = ''/activities'', req_query = q\<rparr> =
      (JSONResponse 200 (JArr ?js), s)"
    by (simp add: handle_def path_segments_activities route_defs run_endpoint_def
        get_activities_def query_all_def get_db_def tbl)
  ultimately show ?thesis using js_names by blast
qed

theorem activities_list_fresh_db_witness:
  "\<exists>s js. reachable \<lparr>table = [], clock = 0\<rparr> s \<and>
     handle s \<lparr>req_method = GET, req_path = ''/activities'', req_query = []\<rparr> =
       (JSONResponse 200 (JArr js), s) \<and>
     map (json_field ''name'') js = map (\<lambda>n. Some (JStr n)) seed_names \<and>
     distinct (map (json_field ''name'') js)"
proof -
  obtain rs where "startup_event \<lparr>table = [], clock = 0\<rparr> = Inr \<lparr>table = rs, clock = 0\<rparr>"
    using startup_event_fresh [of "\<lparr>table = [], clock = 0\<rparr>"] by auto
  then have r: "reachable \<lparr>table = [], clock = 0\<rparr>
      \<lparr>srv_db = \<lparr>table = rs, clock = 0\<rparr>, srv_heap = \<lambda>_. OList []\<rparr>"
    by (rule reachable.start)
  have "table \<lparr>table = [], clock = 0::timestamp\<rparr> = []" by simp
  from activities_list_fresh_db [OF this r] r show ?thesis by blast
qed

text \<open>
  C3. No request changes the server's state: after any sequence of requests the
  database and the Python heap are those the server started with, so neither a
  signup nor an unregistration is ever recorded.
\<close>

theorem serve_state_unchanged: "snd (serve s rs) = s"
proof (induction rs arbitrary: s)
  case Nil
  then show ?case by simp
next
  case (Cons r rs)
  obtain resp s' where h: "handle s r = (resp, s')" by fastforce
  have "snd (handle s r) = s"
    by (auto simp: handle_def run_endpoint_def finish_not_Inr signup_for_activity_not_Inr
        unregister_app_not_Inr Let_def split: option.split endpoint.split)
  with h have "s' = s" by simp
  with h Cons.IH show ?case by (simp add: case_prod_beta)
qed

subsection \<open>Routing and the framework's answers\<close>

text \<open>
  C15. Every path operation of the application is routed back from its URL: the path
  of the root, the list, and the signup and unregister paths of any non-empty activity
  name without a slash, parsed and matched, give that operation with that name.
\<close>

theorem route_roundtrip:
  assumes "app_endpoint ep"
  shows "map_option fst (match_route (path_segments (endpoint_path ep))) = Some ep"
  using app_endpoint_routed [OF assms] by auto

theorem route_roundtrip_witness:
  "app_endpoint (EP_Signup ''Chess Club'') \<and>
   map_option fst (match_route (path_segments ''/activities/Chess Club/signup'')) = Some (EP_Signup ''Chess Club'')"
  using route_roundtrip [of "EP_Signup ''Chess Club''"] by (simp add: valid_segment_def)

text \<open>
  C16. Conversely, the router accepts for a path operation of the application only
  paths with the segments of that operation's URL: whatever path it routes to one of
  them (rather than to the documentation or the static files) has one non-empty
  segment without a slash as its parameter and parses as the operation's own URL.
\<close>

theorem route_sound:
  assumes "match_route (path_segments p) = Some (ep, ms)"
  shows "(\<exists>d. ep = EP_Docs d) \<or> (\<exists>q. ep = EP_Static q) \<or>
         (app_endpoint ep \<and> path_segments (endpoint_path ep) = path_segments p)"
proof -
  obtain segs where segs: "path_segments p = segs" by simp
  show ?thesis
  proof (cases "\<exists>n x. segs = [''activities'', n, x] \<and> n \<noteq> []")
    case True
    then obtain n x where sx: "segs = [''activities'', n, x]" and "n \<noteq> []" by blast
    moreover have "CHR ''/'' \<notin> set n"
      using path_segments_noslash [of n p] segs sx by simp
    ultimately show ?thesis
      using assms segs path_segments_route [of n]
      by (auto simp: route_defs valid_segment_def split: if_splits)
  next
    case False
    then have "\<not> (length segs = 3 \<and> segs ! 0 = ''activities'' \<and> segs ! 1 \<noteq> [])"
      by (auto simp: numeral_3_eq_3 length_Suc_conv)
    with assms segs show ?thesis
      by (auto simp: route_defs path_segments_root path_segments_activities split: if_splits)
  qed
qed

theorem route_sound_witness:
  "match_route (path_segments ''/activities/Chess Club/signup'') = Some (EP_Signup ''Chess Club'', [POST]) \<and>
   ((\<exists>d. EP_Signup ''Chess Club'' = EP_Docs d) \<or> (\<exists>q. EP_Signup ''Chess Club'' = EP_Static q) \<or>
    (app_endpoint (EP_Signup ''Chess Club'') \<and>
     path_segments (endpoint_path (EP_Signup ''Chess Club'')) = path_segments ''/activities/Chess Club/signup''))"
proof -
  have m: "match_route (path_segments ''/activities/Chess Club/signup'') = Some (EP_Signup ''Chess Club'', [POST])"
    by (simp add: path_segments_def route_defs)
  from m route_sound [OF m] show ?thesis by blast
qed

text \<open>
  C17. Starlette's trailing-slash redirect: a request, of any method, whose path is
  the URL of a path operation other than the root followed by one or more slashes
  matches no route, and is answered with a 307 redirect to the URL with every
  trailing slash stripped and the query string kept; the state is unchanged.
\<close>

theorem trailing_slash_redirect:
  assumes "app_endpoint ep" and "ep \<noteq> EP_Root" and "0 < k"
  shows "handle s \<lparr>req_method = m, req_path = endpoint_path ep @ replicate k CHR ''/'', req_query = q\<rparr> =
     (RedirectResponse 307 (endpoint_path ep @ (if q = [] then [] else ''?'' @ query_string q)), s)"
proof -
  note p = endpoint_path_slashes [OF assms(1,2), of k]
  have none: "match_route (path_segments (endpoint_path ep @ replicate k CHR ''/'')) = None"
    using p match_route_slashes [OF assms] by simp
  have toggle: "toggle_trailing_slash (endpoint_path ep @ replicate k CHR ''/'') = endpoint_path ep"
  proof (cases "endpoint_path ep" rule: rev_cases)
    case Nil
    with p show ?thesis by simp
  next
    case (snoc ys y)
    with p assms(3) show ?thesis
      by (simp add: toggle_trailing_slash_def strip_trailing_slashes_def dropWhile_replicate)
  qed
  have "endpoint_path ep @ replicate k CHR ''/'' \<noteq> ''/''"
    using p assms(3) by (cases "endpoint_path ep") auto
  with none toggle app_endpoint_routed [OF assms(1)] show ?thesis
    by (auto simp: handle_def Let_def redirect_target_def)
qed

theorem trailing_slash_redirect_witness:
  "app_endpoint EP_GetActivities \<and> EP_GetActivities \<noteq> EP_Root \<and> (0::nat) < 2 \<and>
   handle \<lparr>srv_db = \<lparr>table = [], clock = 0\<rparr>, srv_heap = \<lambda>_. OList []\<rparr>
     \<lparr>req_method = GET, req_path = ''/activities//'', req_query = [(''x'', ''1'')]\<rparr> =
   (RedirectResponse 307 ''/activities?x=1'', \<lparr>srv_db = \<lparr>table = [], clock = 0\<rparr>, srv_heap = \<lambda>_. OList []\<rparr>)"
  using trailing_slash_redirect [of EP_GetActivities 2 "\<lparr>srv_db = \<lparr>table = [], clock = 0\<rparr>, srv_heap = \<lambda>_. OList []\<rparr>"
      GET "[(''x'', ''1'')]"]
  by (simp add: numeral_2_eq_2)

text \<open>
  C18. A signup or unregister request without the query parameter \<^verbatim>\<open>email\<close>
  is answered 422 by the framework before the handler runs.
\<close>

theorem missing_email_422:
  assumes "valid_segment n" and "query_param q ''email'' = None"
  shows "handle s \<lparr>req_method = POST, req_path = ''/activities/'' @ n @ ''/signup'', req_query = q\<rparr> =
           (missing_query_response ''email'', s) \<and>
         handle s \<lparr>req_method = DELETE, req_path = ''/activities/'' @ n @ ''/unregister'', req_query = q\<rparr> =
           (missing_query_response ''email'', s)"
proof -
  from assms(1) have "n \<noteq> []" "CHR ''/'' \<notin> set n" by (simp_all add: valid_segment_def)
  from path_segments_route [OF this] assms(2) this show ?thesis
    by (simp add: handle_def route_defs run_endpoint_def)
qed

theorem missing_email_422_witness:
  "valid_segment ''Chess Club'' \<and> query_param [(''mail'', ''a@b.com'')] ''email'' = None \<and>
   handle \<lparr>srv_db = \<lparr>table = [], clock = 0\<rparr>, srv_heap = \<lambda>_. OList []\<rparr>
     \<lparr>req_method = POST, req_path = ''/activities/Chess Club/signup'', req_query = [(''mail'', ''a@b.com'')]\<rparr> =
     (missing_query_response ''email'', \<lparr>srv_db = \<lparr>table = [], clock = 0\<rparr>, srv_heap = \<lambda>_. OList []\<rparr>) \<and>
   handle \<lparr>srv_db = \<lparr>table = [], clock = 0\<rparr>, srv_heap = \<lambda>_. OList []\<rparr>
     \<lparr>req_method = DELETE, req_path = ''/activities/Chess Club/unregister'', req_query = [(''mail'', ''a@b.com'')]\<rparr> =
     (missing_query_response ''email'', \<lparr>srv_db = \<lparr>table = [], clock = 0\<rparr>, srv_heap = \<lambda>_. OList []\<rparr>)"
  using missing_email_422 [of "''Chess Club''" "[(''mail'', ''a@b.com'')]" "\<lparr>srv_db = \<lparr>table = [], clock = 0\<rparr>, srv_heap = \<lambda>_. OList []\<rparr>"]
  by (simp add: valid_segment_def query_param_def)

text \<open>
  C19. A method other than the decorator's on a signup path (POST) or an unregister
  path (DELETE) is answered 405 Method Not Allowed.
\<close>

theorem wrong_method_405:
  assumes "valid_segment n"
  shows "(m \<noteq> POST \<longrightarrow> handle s \<lparr>req_method = m, req_path = ''/activities/'' @ n @ ''/signup'', req_query = q\<rparr> =
            (detail_response 405 ''Method Not Allowed'', s)) \<and>
         (m \<noteq> DELETE \<longrightarrow> handle s \<lparr>req_method = m, req_path = ''/activities/'' @ n @ ''/unregister'', req_query = q\<rparr> =
            (detail_response 405 ''Method Not Allowed'', s))"
proof -
  from assms(1) have "n \<noteq> []" "CHR ''/'' \<notin> set n" by (simp_all add: valid_segment_def)
  from path_segments_route [OF this] this show ?thesis
    by (simp add: handle_def route_defs)
qed

theorem wrong_method_405_witness:
  "valid_segment ''Chess Club'' \<and>
   handle \<lparr>srv_db = \<lparr>table = [], clock = 0\<rparr>, srv_heap = \<lambda>_. OList []\<rparr> \<lparr>req_method = GET, req_path = ''/activities/Chess Club/signup'', req_query = []\<rparr> =
     (detail_response 405 ''Method Not Allowed'', \<lparr>srv_db = \<lparr>table = [], clock = 0\<rparr>, srv_heap = \<lambda>_. OList []\<rparr>) \<and>
   handle \<lparr>srv_db = \<lparr>table = [], clock = 0\<rparr>, srv_heap = \<lambda>_. OList []\<rparr> \<lparr>req_method = GET, req_path = ''/activities/Chess Club/unregister'', req_query = []\<rparr> =
     (detail_response 405 ''Method Not Allowed'', \<lparr>srv_db = \<lparr>table = [], clock = 0\<rparr>, srv_heap = \<lambda>_. OList []\<rparr>)"
  using wrong_method_405 [of "''Chess Club''" GET "\<lparr>srv_db = \<lparr>table = [], clock = 0\<rparr>, srv_heap = \<lambda>_. OList []\<rparr>" "[]"]
  by (simp add: valid_segment_def)

text \<open>
  C13. The table invariant (ids present and distinct, NOT NULL columns set) holds in
  every state of a server started on a database that satisfies it: the start-up
  either leaves a non-empty table alone or seeds an empty one with valid rows, and
  no request writes the table.
\<close>

theorem reachable_table_ok:
  assumes "reachable d0 s" and "table_ok (table d0)"
  shows "table_ok (table (srv_db s))"
proof -
  from assms(1) have run: "startup_event d0 = Inr (srv_db s)" by (rule reachable_db_startup)
  show ?thesis
  proof (cases "table d0 = []")
    case True
    from startup_event_fresh [OF True] obtain rs where
      "startup_event d0 = Inr (d0\<lparr>table := rs\<rparr>)" and "table_ok rs" by blast
    with run have "srv_db s = d0\<lparr>table := rs\<rparr>" by simp
    then have "table (srv_db s) = rs" by simp
    with \<open>table_ok rs\<close> show ?thesis by simp
  next
    case False
    with run assms(2) show ?thesis by (simp add: startup_event_nonempty)
  qed
qed

theorem reachable_table_ok_witness:
  "\<exists>s. reachable \<lparr>table = [], clock = 0\<rparr> s \<and> table_ok (table \<lparr>table = [], clock = 0::timestamp\<rparr>) \<and>
     table_ok (table (srv_db s))"
proof -
  obtain rs where "startup_event \<lparr>table = [], clock = 0\<rparr> = Inr \<lparr>table = rs, clock = 0\<rparr>"
    using startup_event_fresh [of "\<lparr>table = [], clock = 0\<rparr>"] by auto
  then have r: "reachable \<lparr>table = [], clock = 0\<rparr>
      \<lparr>srv_db = \<lparr>table = rs, clock = 0\<rparr>, srv_heap = \<lambda>_. OList []\<rparr>"
    by (rule reachable.start)
  have "table_ok (table \<lparr>table = [], clock = 0::timestamp\<rparr>)" by (simp add: table_ok_def)
  with reachable_table_ok [OF r this] r show ?thesis by blast
qed

text \<open>
  C10. \<^verbatim>\<open>GET /activities\<close> answers, in every state of a server, the rows the
  start-up left, in rowid order, each as \<^verbatim>\<open>to_dict\<close> makes it, whatever requests
  came before.  The names it lists are unique only if the table's are: on a database
  holding two activities of one name it lists that name twice.
\<close>

theorem activities_list_reachable:
  assumes "reachable d0 s" and "startup_event d0 = Inr d"
  shows "handle s \<lparr>req_method = GET, req_path = ''/activities'', req_query = q\<rparr> =
           (JSONResponse 200 (JArr (map to_dict (table d))), s)"
proof -
  from assms(1) have "startup_event d0 = Inr (srv_db s)" by (rule reachable_db_startup)
  with assms(2) have "srv_db s = d" by simp
  then show ?thesis by (simp add: handle_get_activities)
qed

theorem activities_list_reachable_witness:
  "reachable \<lparr>table = [stamp_row 0 1 example_row, stamp_row 0 2 example_row], clock = 0\<rparr>
     \<lparr>srv_db = \<lparr>table = [stamp_row 0 1 example_row, stamp_row 0 2 example_row], clock = 0\<rparr>, srv_heap = \<lambda>_. OList []\<rparr> \<and>
   startup_event \<lparr>table = [stamp_row 0 1 example_row, stamp_row 0 2 example_row], clock = 0\<rparr> =
     Inr \<lparr>table = [stamp_row 0 1 example_row, stamp_row 0 2 example_row], clock = 0\<rparr> \<and>
   handle \<lparr>srv_db = \<lparr>table = [stamp_row 0 1 example_row, stamp_row 0 2 example_row], clock = 0\<rparr>, srv_heap = \<lambda>_. OList []\<rparr>
       \<lparr>req_method = GET, req_path = ''/activities'', req_query = []\<rparr> =
     (JSONResponse 200 (JArr [to_dict (stamp_row 0 1 example_row), to_dict (stamp_row 0 2 example_row)]),
      \<lparr>srv_db = \<lparr>table = [stamp_row 0 1 example_row, stamp_row 0 2 example_row], clock = 0\<rparr>, srv_heap = \<lambda>_. OList []\<rparr>) \<and>
   name (stamp_row 0 1 example_row) = name (stamp_row 0 2 example_row)"
proof -
  let ?d = "\<lparr>table = [stamp_row 0 1 example_row, stamp_row 0 2 example_row], clock = 0::timestamp\<rparr>"
  have st: "startup_event ?d = Inr ?d" by (rule startup_event_nonempty) simp
  then have r: "reachable ?d \<lparr>srv_db = ?d, srv_heap = \<lambda>_. OList []\<rparr>" by (rule reachable.start)
  from activities_list_reachable [OF r st, of "[]"] r st show ?thesis
    by (simp add: stamp_row_def)
qed

text \<open>
  C14. Restarting the process changes nothing: in every state of a server whose
  process created its table with \<^verbatim>\<open>create_all\<close>, a new process on the same
  database file (\<^verbatim>\<open>create_all\<close> then \<^verbatim>\<open>startup_event\<close>, at any later time)
  starts with exactly the same rows, neither dropped nor seeded a second time.
\<close>

theorem restart_keeps_table:
  assumes "reachable (create_all dbo t) s"
  shows "\<exists>d'. startup_event (create_all (Some (srv_db s)) t') = Inr d' \<and> table d' = table (srv_db s)"
proof -
  from assms have run: "startup_event (create_all dbo t) = Inr (srv_db s)" by (rule reachable_db_startup)
  have "table (srv_db s) \<noteq> []"
  proof (cases "table (create_all dbo t) = []")
    case True
    from startup_event_fresh [OF True] obtain rs where
      "startup_event (create_all dbo t) = Inr ((create_all dbo t)\<lparr>table := rs\<rparr>)" and "rs \<noteq> []" by blast
    with run have "srv_db s = (create_all dbo t)\<lparr>table := rs\<rparr>" by simp
    with \<open>rs \<noteq> []\<close> show ?thesis by simp
  next
    case False
    with run show ?thesis by (simp add: startup_event_nonempty)
  qed
  then have "table (create_all (Some (srv_db s)) t') \<noteq> []" by (simp add: create_all_def)
  then have "startup_event (create_all (Some (srv_db s)) t') = Inr (create_all (Some (srv_db s)) t')"
    by (rule startup_event_nonempty)
  then show ?thesis by (simp add: create_all_def)
qed

theorem restart_keeps_table_witness:
  "\<exists>s d'. reachable (create_all None 0) s \<and>
     startup_event (create_all (Some (srv_db s)) 5) = Inr d' \<and> table d' = table (srv_db s)"
proof -
  obtain rs where "startup_event (create_all None 0) = Inr \<lparr>table = rs, clock = 0\<rparr>"
    using startup_event_fresh [of "\<lparr>table = [], clock = 0\<rparr>"] by (auto simp: create_all_def)
  then have r: "reachable (create_all None 0) \<lparr>srv_db = \<lparr>table = rs, clock = 0\<rparr>, srv_heap = \<lambda>_. OList []\<rparr>"
    by (rule reachable.start)
  from restart_keeps_table [OF r, of 5] r show ?thesis by blast
qed

text \<open>
  C9. The complete answer of the two mutating endpoints of the deployed code, in
  every state of a server started on an empty database: a signup for a seeded
  activity answers 500, for any other name 404 "Activity not found"; an unregister
  answers 500 whatever the name; and neither changes the state.  Section 8 of the
  specification expects 200 and 400 for the seeded ones.
\<close>

theorem mutations_http_fresh:
  assumes "table d0 = []" and "reachable d0 s" and "valid_segment n"
  shows "handle s \<lparr>req_method = POST, req_path = ''/activities/'' @ n @ ''/signup'', req_query = [(''email'', e)]\<rparr> =
           (if n \<in> set seed_names then PlainTextResponse 500 ''Internal Server Error''
            else detail_response 404 ''Activity not found'', s) \<and>
         handle s \<lparr>req_method = DELETE, req_path = ''/activities/'' @ n @ ''/unregister'', req_query = [(''email'', e)]\<rparr> =
           (PlainTextResponse 500 ''Internal Server Error'', s)"
proof -
  from assms(3) have ok: "n \<noteq> []" "CHR ''/'' \<notin> set n" by (simp_all add: valid_segment_def)
  have names: "map name (table (srv_db s)) = map Some seed_names"
    using assms(1,2) by (rule reachable_fresh_names)
  have q: "query_first_by_name (get_db (srv_db s)) n = None \<longleftrightarrow> n \<notin> set seed_names"
    using find_name_in [OF names, of n] find_name_notin [OF names, of n]
    by (auto simp: query_first_by_name_def get_db_def)
  have "signup_for_activity (get_db (srv_db s)) (srv_heap s) n e =
      (if n \<in> set seed_names then Inl (TypeError (py_quote ''Activity'' @ '' object is not subscriptable''))
       else Inl (HTTPException 404 ''Activity not found''))"
    using q by (cases "query_first_by_name (get_db (srv_db s)) n")
      (simp_all add: signup_for_activity_def query_value_def signup_body_obj)
  moreover have "unregister_from_activity app_globals (srv_heap s) n e =
      Inl (NameError (''name '' @ py_quote ''activities'' @ '' is not defined''))"
    by (simp add: unregister_from_activity_def py_simps)
  ultimately show ?thesis
    using handle_signup [OF ok, of s e] handle_unregister [OF ok, of s e]
    by (cases "n \<in> set seed_names") (simp_all add: finish_def)
qed

theorem mutations_http_fresh_witness:
  "\<exists>s. table \<lparr>table = [], clock = 0\<rparr> = [] \<and> reachable \<lparr>table = [], clock = 0\<rparr> s \<and> valid_segment ''Chess Club'' \<and>
     handle s \<lparr>req_method = POST, req_path = ''/activities/'' @ ''Chess Club'' @ ''/signup'', req_query = [(''email'', ''a@b.com'')]\<rparr> =
       (if ''Chess Club'' \<in> set seed_names then PlainTextResponse 500 ''Internal Server Error''
        else detail_response 404 ''Activity not found'', s) \<and>
     handle s \<lparr>req_method = DELETE, req_path = ''/activities/'' @ ''Chess Club'' @ ''/unregister'', req_query = [(''email'', ''a@b.com'')]\<rparr> =
       (PlainTextResponse 500 ''Internal Server Error'', s)"
proof -
  obtain rs where "startup_event \<lparr>table = [], clock = 0\<rparr> = Inr \<lparr>table = rs, clock = 0\<rparr>"
    using startup_event_fresh [of "\<lparr>table = [], clock = 0\<rparr>"] by auto
  then have r: "reachable \<lparr>table = [], clock = 0\<rparr> \<lparr>srv_db = \<lparr>table = rs, clock = 0\<rparr>, srv_heap = \<lambda>_. OList []\<rparr>"
    by (rule reachable.start)
  have v: "valid_segment ''Chess Club''" by (simp add: valid_segment_def)
  have t: "table \<lparr>table = [], clock = 0::timestamp\<rparr> = []" by simp
  from mutations_http_fresh [OF t r v, of "''a@b.com''"] r v t show ?thesis by blast
qed

end
