(* ===== verification/Boot.thy ===== *)
theory Boot
  imports Seed
begin

text \<open>
  The start-up of several server processes on one database file.  Each process that
  serves the application (a worker of \<^verbatim>\<open>uvicorn --workers\<close> or
  \<^verbatim>\<open>gunicorn\<close>, or one of several instances sharing the file) imports
  \<^verbatim>\<open>src/src/app.py\<close> and runs \<^verbatim>\<open>startup_event\<close> (lines 100--104) on a session
  of its own.  \<^verbatim>\<open>init_db\<close> (lines 86--92) reaches the database twice: the
  \<^verbatim>\<open>SELECT count(*)\<close> of line 88, and the commit of line 92, whose INSERTs and
  COMMIT form one write transaction (SQLite holds its write lock from the first
  INSERT to the COMMIT, and a writer that finds it taken waits for it; the wait is
  assumed to end within SQLite's busy timeout).  Building and adding the nine objects
  (lines 89--91) does not touch the database.  So a process's start-up is two atomic
  steps on the shared database, \<open>boot_step\<close>: \<open>Booting\<close> counts the rows and
  goes on to \<open>Seeding\<close> if there are none, to \<open>Serving\<close> otherwise;
  \<open>Seeding\<close> commits the nine seed objects against the database as it is then.
  \<open>boot_conc\<close> lets any process take its next step.  A process that starts alone
  computes \<open>startup_event\<close> in its two steps (\<open>boot_alone\<close>).

  Proved here: from an empty table, every interleaving of k start-ups leaves the
  table equal to j copies of the nine seed rows, with ids 1 to 9j, for some
  j \<open>\<le>\<close> k; no start-up fails; and once any process serves, j \<open>\<ge>\<close> 1.  The bound is
  reached: if all k processes count before any commits, the table holds k copies,
  each seed name k times.  The guard of line 88 makes the seed happen exactly once
  only when start-ups do not overlap.
\<close>

datatype boot_pc = Booting | Seeding | Serving | BootFailed py_exc

fun boot_step :: "db_state \<Rightarrow> boot_pc \<Rightarrow> (db_state \<times> boot_pc) option" where
  "boot_step d Booting = Some (d, if query_count (get_db d) = 0 then Seeding else Serving)"
| "boot_step d Seeding =
     Some (case session_commit (add_activities (get_db d) initial_activities) of
             Inl e \<Rightarrow> (d, BootFailed e)
           | Inr s \<Rightarrow> (sess_db s, Serving))"
| "boot_step d Serving = None"
| "boot_step d (BootFailed e) = None"

inductive boot_conc :: "db_state \<times> boot_pc list \<Rightarrow> db_state \<times> boot_pc list \<Rightarrow> bool" where
  step: "i < length ps \<Longrightarrow> boot_step d (ps ! i) = Some (d', c) \<Longrightarrow> boot_conc (d, ps) (d', ps[i := c])"

text \<open>
  The objects the seed loop builds, the rows one commit of them writes from the rowid
  \<open>m\<close> on, and the table after j such commits.
\<close>

definition seed_objects :: "activity list" where
  "seed_objects = map activity_new initial_activities"

definition seed_rows :: "timestamp \<Rightarrow> int \<Rightarrow> activity list" where
  "seed_rows t m = map2 (stamp_row t) [m..m + 8] seed_objects"

definition seed_copies :: "timestamp \<Rightarrow> nat \<Rightarrow> activity list" where
  "seed_copies t j = concat (map (\<lambda>i. seed_rows t (9 * int i + 1)) [0..<j])"

subsection \<open>One commit of the seed\<close>

lemma add_activities_pending: "add_activities s ds = s\<lparr>pending := pending s @ map activity_new ds\<rparr>"
  by (induction ds arbitrary: s) (simp_all add: session_add_def)

lemma seed_objects_transient: "\<forall>p\<in>set seed_objects. transient p"
  by (simp add: seed_objects_def initial_activities_def activity_new_def blank_activity_def
      transient_def not_null_ok_def)

lemma length_seed_objects [simp]: "length seed_objects = 9"
  by (simp add: seed_objects_def initial_activities_def)

lemma length_initial_activities [simp]: "length initial_activities = 9"
  by (simp add: initial_activities_def)

lemma seed_commit:
  "session_commit (add_activities (get_db d) initial_activities) =
     Inr \<lparr>sess_db = d\<lparr>table := table d @ seed_rows (clock d) (next_rowid (table d))\<rparr>, pending = []\<rparr>"
  using flush_rows_transient_eq [OF seed_objects_transient, of "clock d" "table d"]
  by (simp add: session_commit_def add_activities_pending get_db_def seed_rows_def seed_objects_def ac_simps)

lemma next_rowid_seed_rows: "next_rowid (rs @ seed_rows t (next_rowid rs)) = next_rowid rs + 9"
  using flush_rows_transient_eq [OF seed_objects_transient, of t rs]
  by (simp add: seed_rows_def ac_simps)

lemma map_name_stamp_rows:
  "length is = length ps \<Longrightarrow> map name (map2 (stamp_row t) is ps) = map name ps"
  by (induction "is" ps rule: list_induct2) (simp_all add: stamp_row_def)

lemma map_name_seed_rows: "map name (seed_rows t m) = map Some seed_names"
proof -
  have "map name (seed_rows t m) = map name seed_objects"
    unfolding seed_rows_def by (rule map_name_stamp_rows) simp
  also have "\<dots> = map Some seed_names"
    by (simp add: seed_objects_def seed_names_def initial_activities_def activity_new_def blank_activity_def)
  finally show ?thesis .
qed

lemma seed_rows_nonempty: "seed_rows t m \<noteq> []"
  using map_name_seed_rows [of t m] by (auto simp: seed_names_def initial_activities_def)

lemma seed_copies_0 [simp]: "seed_copies t 0 = []"
  by (simp add: seed_copies_def)

lemma seed_copies_Suc: "seed_copies t (Suc j) = seed_copies t j @ seed_rows t (9 * int j + 1)"
  by (simp add: seed_copies_def)

lemma next_rowid_seed_copies: "next_rowid (seed_copies t j) = 9 * int j + 1"
proof (induction j)
  case 0
  then show ?case by simp
next
  case (Suc j)
  then show ?case using next_rowid_seed_rows [of "seed_copies t j" t] by (simp add: seed_copies_Suc)
qed

lemma seed_copies_empty: "seed_copies t j = [] \<longleftrightarrow> j = 0"
  by (cases j) (simp_all add: seed_copies_Suc seed_rows_nonempty)

lemma map_name_seed_copies: "map name (seed_copies t j) = map Some (concat (replicate j seed_names))"
  by (induction j) (simp_all add: seed_copies_Suc map_name_seed_rows replicate_append_same [symmetric])

lemma boot_step_seeding:
  "table d = seed_copies (clock d) j \<Longrightarrow>
   boot_step d Seeding = Some (d\<lparr>table := seed_copies (clock d) (Suc j)\<rparr>, Serving)"
  by (simp add: seed_commit next_rowid_seed_copies seed_copies_Suc)

text \<open>A process that starts alone runs \<open>startup_event\<close> in its two steps.\<close>

lemma boot_alone:
  assumes "startup_event d = Inr d'"
  shows "boot_conc\<^sup>*\<^sup>* (d, [Booting]) (d', [Serving])"
proof (cases "table d = []")
  case True
  have c: "session_commit (add_activities (get_db d) initial_activities) =
      Inr \<lparr>sess_db = d', pending = []\<rparr>"
    using assms True seed_commit [of d] by (simp add: startup_event_def init_db_def query_count_def get_db_def)
  have "boot_conc (d, [Booting]) (d, [Seeding])"
    using boot_conc.step [of 0 "[Booting]" d d Seeding] True by (simp add: query_count_def get_db_def)
  moreover have "boot_conc (d, [Seeding]) (d', [Serving])"
    using boot_conc.step [of 0 "[Seeding]" d d' Serving] c by simp
  ultimately show ?thesis by (meson rtranclp.rtrancl_into_rtrancl rtranclp.rtrancl_refl)
next
  case False
  then have "d' = d" using assms by (simp add: startup_event_def init_db_def query_count_def get_db_def)
  moreover have "boot_conc (d, [Booting]) (d, [Serving])"
    using boot_conc.step [of 0 "[Booting]" d d Serving] False by (simp add: query_count_def get_db_def)
  ultimately show ?thesis by simp
qed

inductive_cases boot_concE: "boot_conc (d, ps) (d', ps')"

lemma boot_all_count:
  "table d = [] \<Longrightarrow> i \<le> k \<Longrightarrow>
   boot_conc\<^sup>*\<^sup>* (d, replicate k Booting) (d, replicate i Seeding @ replicate (k - i) Booting)"
proof (induction i)
  case 0
  then show ?case by simp
next
  case (Suc i)
  then have i: "i < k" by simp
  note r = replicate_split_update [OF i, of Seeding Booting]
  have "boot_step d ((replicate i Seeding @ replicate (k - i) Booting) ! i) = Some (d, Seeding)"
    using r Suc.prems(1) by (simp add: query_count_def get_db_def)
  then have "boot_conc (d, replicate i Seeding @ replicate (k - i) Booting)
      (d, (replicate i Seeding @ replicate (k - i) Booting)[i := Seeding])"
    by (rule boot_conc.step [rotated]) (use i in simp)
  with Suc r show ?case by (simp add: rtranclp.rtrancl_into_rtrancl)
qed

lemma boot_all_commit:
  "i \<le> k \<Longrightarrow>
   boot_conc\<^sup>*\<^sup>* (d\<lparr>table := []\<rparr>, replicate k Seeding)
     (d\<lparr>table := seed_copies (clock d) i\<rparr>, replicate i Serving @ replicate (k - i) Seeding)"
proof (induction i)
  case 0
  then show ?case by simp
next
  case (Suc i)
  then have i: "i < k" by simp
  note r = replicate_split_update [OF i, of Serving Seeding]
  let ?d = "d\<lparr>table := seed_copies (clock d) i\<rparr>"
  have "table ?d = seed_copies (clock ?d) i" by simp
  from boot_step_seeding [OF this] r
  have "boot_step ?d ((replicate i Serving @ replicate (k - i) Seeding) ! i) =
      Some (d\<lparr>table := seed_copies (clock d) (Suc i)\<rparr>, Serving)"
    by simp
  then have "boot_conc (?d, replicate i Serving @ replicate (k - i) Seeding)
      (d\<lparr>table := seed_copies (clock d) (Suc i)\<rparr>, (replicate i Serving @ replicate (k - i) Seeding)[i := Serving])"
    by (rule boot_conc.step [rotated]) (use i in simp)
  with Suc r show ?case by (simp add: rtranclp.rtrancl_into_rtrancl)
qed

subsection \<open>Overlapping start-ups\<close>

text \<open>
  C7. Every interleaving of the start-ups of k processes on an empty table leaves
  the table equal to j commits of the nine seed rows, with consecutive ids, for some
  j \<open>\<le>\<close> k (so each seed name appears j times); no process fails, and as soon as
  one process serves requests the table holds at least one copy.
\<close>

theorem concurrent_startup_copies:
  assumes "table d = []" and "boot_conc\<^sup>*\<^sup>* (d, replicate k Booting) (d', ps)"
  shows "\<exists>j\<le>k. d' = d\<lparr>table := seed_copies (clock d) j\<rparr> \<and>
           map name (table d') = map Some (concat (replicate j seed_names)) \<and>
           list_all (\<lambda>c. c \<in> {Booting, Seeding, Serving}) ps \<and> (Serving \<in> set ps \<longrightarrow> 0 < j)"
proof -
  have "\<exists>j. d' = d\<lparr>table := seed_copies (clock d) j\<rparr> \<and> length ps = k \<and>
      list_all (\<lambda>c. c \<in> {Booting, Seeding, Serving}) ps \<and>
      j + count_list ps Seeding + count_list ps Booting \<le> k \<and> (Serving \<in> set ps \<longrightarrow> 0 < j)"
    using assms(2)
  proof (induction rule: rtranclp_induct2)
    case refl
    have "d\<lparr>table := seed_copies (clock d) 0\<rparr> = d" using assms(1) by (cases d) simp
    then show ?case by (intro exI [of _ 0]) (simp add: count_list_replicate_same count_list_replicate_other list_all_iff)
  next
    case (step d1 ps1 d2 ps2)
    from step.IH obtain j where d1: "d1 = d\<lparr>table := seed_copies (clock d) j\<rparr>" and len: "length ps1 = k"
      and ok: "list_all (\<lambda>c. c \<in> {Booting, Seeding, Serving}) ps1"
      and cnt: "j + count_list ps1 Seeding + count_list ps1 Booting \<le> k"
      and srv: "Serving \<in> set ps1 \<longrightarrow> 0 < j" by blast
    from step.hyps(2) obtain i c where i: "i < length ps1" and st: "boot_step d1 (ps1 ! i) = Some (d2, c)"
      and ps2: "ps2 = ps1[i := c]" by (rule boot_concE) blast
    have tbl: "table d1 = seed_copies (clock d1) j" using d1 by simp
    note cs = count_list_update [OF i, of c Seeding] count_list_update [OF i, of c Booting]
    have sub: "Serving \<in> set ps2 \<Longrightarrow> c = Serving \<or> Serving \<in> set ps1"
      using ps2 set_update_subset_insert [of ps1 i c] by auto
    show ?case
    proof (cases "ps1 ! i")
      case Booting
      show ?thesis
      proof (cases j)
        case 0
        with st Booting tbl have "d2 = d1" "c = Seeding" by (simp_all add: query_count_def get_db_def)
        with 0 d1 len ok cnt srv sub cs Booting ps2 show ?thesis
          by (intro exI [of _ j]) (auto intro: list_all_list_update)
      next
        case (Suc j')
        with st Booting tbl have "d2 = d1" "c = Serving"
          by (simp_all add: query_count_def get_db_def seed_copies_empty)
        with Suc d1 len ok cnt cs Booting ps2 show ?thesis
          by (intro exI [of _ j]) (auto intro: list_all_list_update)
      qed
    next
      case Seeding
      with st boot_step_seeding [OF tbl] have "d2 = d\<lparr>table := seed_copies (clock d) (Suc j)\<rparr>" "c = Serving"
        using d1 by simp_all
      with len ok cnt cs Seeding ps2 show ?thesis
        by (intro exI [of _ "Suc j"]) (auto intro: list_all_list_update)
    next
      case Serving
      with st show ?thesis by simp
    next
      case (BootFailed e)
      with st show ?thesis by simp
    qed
  qed
  then obtain j where "d' = d\<lparr>table := seed_copies (clock d) j\<rparr>" "j \<le> k"
    "list_all (\<lambda>c. c \<in> {Booting, Seeding, Serving}) ps" "Serving \<in> set ps \<longrightarrow> 0 < j" by auto
  then show ?thesis by (intro exI [of _ j]) (simp add: map_name_seed_copies)
qed

text \<open>
  C8. The guard of line 88 does not make the seed happen once: when the k
  processes all count the empty table before any of them commits, the table ends
  with k copies of the seed rows, each seed name k times, against the specification's
  promise of a seed written once with unique names.
\<close>

theorem concurrent_startup_k_copies:
  assumes "table d = []"
  shows "boot_conc\<^sup>*\<^sup>* (d, replicate k Booting) (d\<lparr>table := seed_copies (clock d) k\<rparr>, replicate k Serving) \<and>
    map name (seed_copies (clock d) k) = map Some (concat (replicate k seed_names))"
proof -
  have d: "d\<lparr>table := []\<rparr> = d" using assms by (cases d) simp
  from boot_all_count [OF assms, of k k] have "boot_conc\<^sup>*\<^sup>* (d, replicate k Booting) (d, replicate k Seeding)"
    by simp
  moreover from boot_all_commit [of k k d] d
  have "boot_conc\<^sup>*\<^sup>* (d, replicate k Seeding) (d\<lparr>table := seed_copies (clock d) k\<rparr>, replicate k Serving)"
    by simp
  ultimately show ?thesis by (simp add: map_name_seed_copies)
qed

theorem concurrent_startup_copies_witness:
  "\<exists>d' ps. table \<lparr>table = [], clock = 0\<rparr> = [] \<and>
     boot_conc\<^sup>*\<^sup>* (\<lparr>table = [], clock = 0\<rparr>, replicate 2 Booting) (d', ps) \<and>
     (\<exists>j\<le>2. d' = \<lparr>table = seed_copies 0 j, clock = 0\<rparr> \<and>
        map name (table d') = map Some (concat (replicate j seed_names)) \<and>
        list_all (\<lambda>c. c \<in> {Booting, Seeding, Serving}) ps \<and> (Serving \<in> set ps \<longrightarrow> 0 < j))"
proof -
  let ?d = "\<lparr>table = [], clock = 0::timestamp\<rparr>"
  have e: "table ?d = []" by simp
  have "boot_conc\<^sup>*\<^sup>* (?d, replicate 2 Booting) (?d, replicate 2 Seeding @ replicate 0 Booting)"
    using boot_all_count [OF e, of 2 2] by simp
  then have run: "boot_conc\<^sup>*\<^sup>* (?d, replicate 2 Booting) (?d, replicate 2 Seeding)" by simp
  from concurrent_startup_copies [OF e run]
  have "\<exists>j\<le>2. ?d = \<lparr>table = seed_copies 0 j, clock = 0\<rparr> \<and>
      map name (table ?d) = map Some (concat (replicate j seed_names)) \<and>
      list_all (\<lambda>c. c \<in> {Booting, Seeding, Serving}) (replicate 2 Seeding) \<and>
      (Serving \<in> set (replicate 2 Seeding) \<longrightarrow> 0 < j)"
    by simp
  with e run show ?thesis by blast
qed

theorem concurrent_startup_k_copies_witness:
  "table \<lparr>table = [], clock = 0\<rparr> = [] \<and>
   boot_conc\<^sup>*\<^sup>* (\<lparr>table = [], clock = 0\<rparr>, [Booting, Booting]) (\<lparr>table = seed_copies 0 2, clock = 0\<rparr>, [Serving, Serving]) \<and>
   map name (seed_copies 0 2) = map Some (seed_names @ seed_names) \<and> \<not> distinct (map name (seed_copies 0 2))"
proof -
  have "table \<lparr>table = [], clock = 0::timestamp\<rparr> = []" by simp
  from concurrent_startup_k_copies [OF this, of 2] this show ?thesis
    by (simp add: numeral_2_eq_2 seed_names_def initial_activities_def)
qed

end
