(* ===== verification/Spec2Isabelle.thy ===== *)
theory Spec2Isabelle
  imports Api Boot
begin

text \<open>
  \<^bold>\<open>A verification development of the Mergington High School activities API.\<close>

  The repository is a FastAPI application, \<^verbatim>\<open>src/src/app.py\<close>, over one SQLAlchemy
  entity, \<^verbatim>\<open>src/src/models/activity.py\<close>.  At start-up it seeds the table
  \<^verbatim>\<open>activities\<close> with nine activities if the table is empty; it then serves
  \<^verbatim>\<open>GET /\<close> (a redirect), \<^verbatim>\<open>GET /activities\<close> (the list),
  \<^verbatim>\<open>POST /activities/{name}/signup?email=\<close> and
  \<^verbatim>\<open>DELETE /activities/{name}/unregister?email=\<close>.  The specification
  (\<^verbatim>\<open>spec.md\<close>) describes an Activity Store whose activities carry participant
  lists, seeded once, and an API layer mapping its errors to 404 and 400.

  \<^bold>\<open>Theories and what they model.\<close>
  \<^item> \<open>Prelude\<close>: the Python exceptions (\<open>py_exc\<close>), JSON values, the error monad
    \<open>py_exc + 'a\<close> with \<open>rbind\<close>, shared list lemmas.
  \<^item> \<open>ActivityModel\<close>: the class \<^verbatim>\<open>Activity\<close> as the record \<open>activity\<close>
    (one option-valued field per column), its declarative keyword constructor
    \<open>activity_new\<close> on the keyword arguments the program passes (the four string
    columns, \<open>str_column\<close>), \<open>to_dict\<close>, the NOT NULL columns.
  \<^item> \<open>PyValue\<close>: the fragment of Python the handlers are written in: values, a heap of
    dicts and lists (so that aliasing is explicit), truth testing, subscription,
    membership, \<^verbatim>\<open>append\<close>, \<^verbatim>\<open>remove\<close>, global name lookup, each raising
    what CPython raises.
  \<^item> \<open>Database\<close>: the table as its rows in rowid order and a session with pending
    objects; the three queries of \<^verbatim>\<open>app.py\<close> (lines 88, 110, 118),
    \<^verbatim>\<open>db.add\<close> and \<^verbatim>\<open>db.commit\<close> (flush checks NOT NULL and UNIQUE and
    writes each object as \<open>stamp_row\<close>: its rowid, one more than the largest, and
    the \<^verbatim>\<open>created_at\<close> default).  \<^verbatim>\<open>models/__init__.py\<close>
    (\<^verbatim>\<open>get_db\<close>) is not among the sources and follows the standard dependency.
  \<^item> \<open>Seed\<close>: \<^verbatim>\<open>create_all\<close> (line 18), \<^verbatim>\<open>initial_activities\<close>,
    \<^verbatim>\<open>init_db\<close>, \<^verbatim>\<open>startup_event\<close> (lines 29--104).
  \<^item> \<open>Boot\<close>: the start-up of several server processes on one database file: each
    process's \<^verbatim>\<open>init_db\<close> as its two atomic database accesses (\<open>boot_step\<close>: the
    count of line 88, the commit of line 92) and any interleaving of them
    (\<open>boot_conc\<close>).
  \<^item> \<open>Handlers\<close>: \<^verbatim>\<open>root\<close>, \<^verbatim>\<open>get_activities\<close>,
    \<^verbatim>\<open>signup_for_activity\<close> (with its body \<open>signup_body\<close>) and
    \<^verbatim>\<open>unregister_from_activity\<close>, statement by statement; \<open>app_globals\<close> are the
    names the module binds.
  \<^item> \<open>Api\<close>: the routes in registration order (\<open>app_routes\<close>: FastAPI's
    documentation routes, the \<^verbatim>\<open>/static\<close> mount, the four decorators) and
    Starlette's first-match dispatch with its 404, 405 and trailing-slash redirect,
    FastAPI's 422, the conversion of exceptions to responses, the server state
    (database and heap), \<open>handle\<close> for one request, \<open>serve\<close> for a sequence, and
    \<open>reachable\<close>, the states of a server started by \<^verbatim>\<open>startup_event\<close> on a given
    database.

  \<^bold>\<open>What is proved.\<close>
  \<^item> The handlers as written (\<open>Handlers\<close>, \<open>Api\<close>): the signup handler subscripts
    the ORM instance (\<^verbatim>\<open>activity["participants"]\<close>) and raises \<^verbatim>\<open>TypeError\<close>
    for every existing activity (C1); the unregister handler reads the undefined
    global \<^verbatim>\<open>activities\<close> and raises \<^verbatim>\<open>NameError\<close> on every input (C2); so no
    sequence of requests changes the server state (C3), and every signup or
    unregister of a freshly started server answers 500 or 404 where the
    specification expects 200 and 400 (C9).
  \<^item> Start-up and persistence (\<open>Seed\<close>, \<open>Database\<close>, \<open>Api\<close>): the start-up seeds
    the nine activities with ids 1 to 9 (C5) and is idempotent (C6); a commit
    appends exactly the pending objects with consecutive rowids, accepting two
    activities of one name (C11), and keeps the table invariant (C12), which holds in
    every reachable state (C13); a restart of the process keeps the table (C14).
  \<^item> Overlapping start-ups (\<open>Boot\<close>): every interleaving of k start-ups on an
    empty table leaves j copies of the seed rows, 1 \<open>\<le>\<close> j \<open>\<le>\<close> k once a process
    serves (C7), and k copies are reached when all processes count before any
    commits (C8): the guard of line 88 seeds once only if start-ups do not overlap.
  \<^item> The API (\<open>Api\<close>, \<open>ActivityModel\<close>): from a fresh database the list endpoint
    answers the nine seed names, each once (C4), and in every state the table the
    start-up left (C10); the routes round-trip in both directions (C15, C16); a path
    with trailing slashes is redirected with 307 to the route (C17); a signup or
    unregister without \<^verbatim>\<open>email\<close> gets 422 (C18), with another method 405 (C19);
    \<^verbatim>\<open>to_dict\<close> emits exactly the five keys and loses nothing else (C20).

  \<^bold>\<open>Bounds and termination.\<close>  Every loop of the program is over a finite list (the
  seed list, the pending objects, the rows of the table, the route list), so every
  recursive definition is structural (\<^theory_text>\<open>fun\<close> or \<^theory_text>\<open>primrec\<close>) and total; no
  fuel is needed.  Overlapping start-ups are a relation, not a function: each process
  takes at most two steps.  Python integers are unbounded and are modelled as
  \<open>int\<close>; rowids follow SQLite's largest-plus-one rule, which holds while they stay
  below \<open>2^63 - 1\<close>, far beyond the 9k rows k start-ups write.

  \<^bold>\<open>Not modelled.\<close>  The static front-end and FastAPI's documentation pages (routed,
  answered by \<open>FrameworkResponse\<close>); the host part of the URL of the trailing-slash
  redirect, which the request record does not carry; the keyword check of the
  declarative constructor (\<^verbatim>\<open>TypeError\<close> for a name the class lacks), which the
  seed dictionaries never exercise; the \<^verbatim>\<open>String(n)\<close> widths, which SQLite does
  not enforce; SQLAlchemy's autoflush, since no query runs with pending objects; the
  \<^verbatim>\<open>onupdate\<close> of \<^verbatim>\<open>updated_at\<close>, since no row is ever updated; SQLite's busy
  timeout, assumed long enough for a waiting writer.  Concurrent requests are not
  modelled: after start-up no request changes the state (C3), since both mutating
  handlers raise before their first write, so overlapping requests cannot interfere.
\<close>

end
